theory Spec2Isabelle
  imports Main "HOL-Library.Sublist"
begin

section \<open>CompressPro: the transcoding worker of \<^verbatim>\<open>src/main.py\<close>\<close>

text \<open>
  The development embeds \<^verbatim>\<open>SystemDetector.get_optimal_encoder\<close>,
  \<^verbatim>\<open>SystemDetector.get_fallback_encoders\<close> and the methods of
  \<^verbatim>\<open>VideoCompressionWorker\<close> (\<^verbatim>\<open>run\<close>, \<^verbatim>\<open>setup_video_encoder\<close>,
  \<^verbatim>\<open>setup_audio_encoder\<close>, \<^verbatim>\<open>resize_frame\<close>, \<^verbatim>\<open>get_resolution_dimensions\<close>,
  \<^verbatim>\<open>parse_bitrate\<close>). PyAV, the file system, the flag written by the GUI thread and
  Python's floating-point unit are outside the code; what the worker observes of them is
  collected in an environment record.
\<close>

subsection \<open>Exceptions\<close>

text \<open>
  Every exception is caught by \<^verbatim>\<open>except Exception as e\<close> and only \<^verbatim>\<open>str(e)\<close> is used, so an
  exception is its class together with its message.
\<close>

datatype error =
    FileNotFoundError string
  | ValueError string
  | RuntimeError string
  | IndexError string
  | ZeroDivisionError string
  | AVError string

fun str :: "error \<Rightarrow> string" where
  "str (FileNotFoundError m) = m"
| "str (ValueError m) = m"
| "str (RuntimeError m) = m"
| "str (IndexError m) = m"
| "str (ZeroDivisionError m) = m"
| "str (AVError m) = m"

subsection \<open>Strings\<close>

definition ascii_lowercase :: string where
  "ascii_lowercase = ''abcdefghijklmnopqrstuvwxyz''"

definition ascii_uppercase :: string where
  "ascii_uppercase = ''ABCDEFGHIJKLMNOPQRSTUVWXYZ''"

text \<open>
  \<^verbatim>\<open>str.upper()\<close> on the ASCII range. A \<^typ>\<open>char\<close> is a byte, so a character outside ASCII
  is a run of bytes above 127, which this function leaves alone.
\<close>

definition upper_char :: "char \<Rightarrow> char" where
  "upper_char c = (case map_of (zip ascii_lowercase ascii_uppercase) c of Some u \<Rightarrow> u | None \<Rightarrow> c)"

definition upper :: "string \<Rightarrow> string" where
  "upper s = map upper_char s"

text \<open>\<^verbatim>\<open>s.endswith(c)\<close> for a one-character suffix, and \<^verbatim>\<open>sub in s\<close>.\<close>

definition endswith :: "string \<Rightarrow> char \<Rightarrow> bool" where
  "endswith s c = (s \<noteq> [] \<and> last s = c)"

fun contains :: "string \<Rightarrow> string \<Rightarrow> bool" where
  "contains sub [] = (sub = [])"
| "contains sub (c # cs) = (prefix sub (c # cs) \<or> contains sub cs)"

definition quoted :: "string \<Rightarrow> string" where
  "quoted s = [CHR 0x27] @ s @ [CHR 0x27]"

subsection \<open>Numerals\<close>

definition is_digit :: "char \<Rightarrow> bool" where
  "is_digit c = (c \<in> set ''0123456789'')"

definition digit_val :: "char \<Rightarrow> nat" where
  "digit_val c = of_char c - 48"

definition digits_val :: "string \<Rightarrow> nat" where
  "digits_val ds = foldl (\<lambda>n c. 10 * n + digit_val c) 0 ds"

text \<open>
  \<^verbatim>\<open>int(s)\<close> on a string. The model reads a non-empty run of ASCII digits; Python also
  accepts a sign, surrounding white space and underscores between digits, spellings the
  model does not cover and reports as the \<^verbatim>\<open>ValueError\<close> of a malformed literal.
\<close>

definition py_int :: "string \<Rightarrow> error + int" where
  "py_int s =
     (if s \<noteq> [] \<and> list_all is_digit s then Inr (int (digits_val s))
      else Inl (ValueError (''invalid literal for int() with base 10: '' @ quoted s)))"

text \<open>
  \<^verbatim>\<open>float(s)\<close> on a string, for the plain decimal spellings \<^verbatim>\<open>12\<close>, \<^verbatim>\<open>12.\<close>, \<^verbatim>\<open>.5\<close> and
  \<^verbatim>\<open>12.5\<close>. The result is the pair \<open>(m, k)\<close> that stands for \<open>m / 10 ^ k\<close>. Signs, exponents,
  white space, underscores, \<^verbatim>\<open>inf\<close> and \<^verbatim>\<open>nan\<close> are not covered and are reported as the
  \<^verbatim>\<open>ValueError\<close> of a malformed literal. The decimal is kept exact: a Python float rounds it
  to the nearest double.
\<close>

definition py_float :: "string \<Rightarrow> error + nat \<times> nat" where
  "py_float s =
     (let ip = takeWhile (\<lambda>c. c \<noteq> CHR ''.'') s;
          fp = drop 1 (dropWhile (\<lambda>c. c \<noteq> CHR ''.'') s)
      in if list_all is_digit ip \<and> list_all is_digit fp \<and> ip @ fp \<noteq> []
         then Inr (digits_val (ip @ fp), length fp)
         else Inl (ValueError (''could not convert string to float: '' @ quoted s)))"

text \<open>\<^verbatim>\<open>int(x * factor)\<close> for a non-negative decimal \<open>x = m / 10 ^ k\<close>: truncation.\<close>

definition int_of_scaled :: "nat \<times> nat \<Rightarrow> nat \<Rightarrow> int" where
  "int_of_scaled x factor = int ((fst x * factor) div 10 ^ snd x)"

subsection \<open>\<^verbatim>\<open>parse_bitrate\<close>\<close>

definition parse_bitrate :: "string \<Rightarrow> error + int" where
  "parse_bitrate s =
     (let bitrate_str = upper s in
      if endswith bitrate_str (CHR ''K'') then
        (case py_float (butlast bitrate_str) of
           Inl e \<Rightarrow> Inl e
         | Inr x \<Rightarrow> Inr (int_of_scaled x 1000))
      else if endswith bitrate_str (CHR ''M'') then
        (case py_float (butlast bitrate_str) of
           Inl e \<Rightarrow> Inl e
         | Inr x \<Rightarrow> Inr (int_of_scaled x 1000000))
      else py_int bitrate_str)"

subsection \<open>\<^verbatim>\<open>get_resolution_dimensions\<close>\<close>

definition resolutions :: "(string \<times> nat \<times> nat) list" where
  "resolutions =
     [(''1080p'', (1920, 1080)),
      (''720p'', (1280, 720)),
      (''480p'', (854, 480))]"

definition get_resolution_dimensions :: "string \<Rightarrow> nat \<times> nat" where
  "get_resolution_dimensions resolution =
     (case map_of resolutions resolution of Some d \<Rightarrow> d | None \<Rightarrow> (1920, 1080))"

subsection \<open>\<^verbatim>\<open>SystemDetector\<close>: encoder resolution\<close>

definition encoder_priority :: "(string \<times> string list) list" where
  "encoder_priority =
     [(''h264'', [''libx264'', ''h264_nvenc'', ''h264_qsv'', ''h264_vaapi'', ''h264_videotoolbox'']),
      (''h265'', [''libx265'', ''hevc_nvenc'', ''hevc_qsv'', ''hevc_vaapi'', ''hevc_videotoolbox'']),
      (''vp9'', [''libvpx-vp9'', ''vp9_vaapi'']),
      (''av1'', [''libsvtav1'', ''av1_qsv'', ''av1_vaapi'', ''av1_nvenc''])]"

definition fallback :: "(string \<times> string) list" where
  "fallback =
     [(''h264'', ''libx264''),
      (''h265'', ''libx265''),
      (''vp9'', ''libvpx-vp9''),
      (''av1'', ''libsvtav1'')]"

definition fallback_lists :: "(string \<times> string list) list" where
  "fallback_lists =
     [(''h264'', [''libx264'', ''h264_nvenc'']),
      (''h265'', [''libx265'', ''hevc_nvenc'']),
      (''vp9'', [''libvpx-vp9'']),
      (''av1'', [''libsvtav1'', ''libaom-av1''])]"

text \<open>\<^verbatim>\<open>d.get(key, default)\<close> on a dictionary literal.\<close>

definition dict_get :: "('k \<times> 'v) list \<Rightarrow> 'k \<Rightarrow> 'v \<Rightarrow> 'v" where
  "dict_get d k dflt = (case map_of d k of Some v \<Rightarrow> v | None \<Rightarrow> dflt)"

text \<open>
  The first argument is \<^verbatim>\<open>av.codec.codecs_available\<close>, the set of codec names the installed
  FFmpeg build offers.
\<close>

definition get_optimal_encoder :: "string set \<Rightarrow> string \<Rightarrow> string" where
  "get_optimal_encoder available_encoders codec =
     (case find (\<lambda>encoder. encoder \<in> available_encoders) (dict_get encoder_priority codec []) of
        Some encoder \<Rightarrow> encoder
      | None \<Rightarrow> dict_get fallback codec ''libx264'')"

definition get_fallback_encoders :: "string \<Rightarrow> string list" where
  "get_fallback_encoders codec = dict_get fallback_lists codec [''libx264'']"

text \<open>
  The accelerator families are the keys of the capability dictionary built by
  \<^verbatim>\<open>detect_gpu_capabilities\<close>; an encoder identifier belongs to a family when it carries
  the family's name.
\<close>

definition accelerator_families :: "string list" where
  "accelerator_families = [''nvenc'', ''qsv'', ''vaapi'', ''videotoolbox'']"

definition is_hardware_encoder :: "string \<Rightarrow> bool" where
  "is_hardware_encoder encoder = list_ex (\<lambda>family. contains family encoder) accelerator_families"

definition codec_families :: "string list" where
  "codec_families = [''h264'', ''h265'', ''vp9'', ''av1'']"

subsection \<open>Settings and the data of the multimedia framework\<close>

record CompressionSettings =
  input_file :: string
  output_file :: string
  codec :: string
  quality_mode :: string
  crf_value :: int
  bitrate :: string
  resolution :: string
  fps :: string
  gpu_acceleration :: string
  preset :: string
  audio_codec :: string
  audio_bitrate :: string
  threads :: int

text \<open>
  The input video stream as \<^verbatim>\<open>run\<close> and \<^verbatim>\<open>setup_video_encoder\<close> read it. A frame count and
  a duration are non-negative; \<open>None\<close> is an attribute that is absent or \<^verbatim>\<open>None\<close>; a rate is a
  \<^verbatim>\<open>Fraction\<close>, kept as numerator and denominator.
\<close>

record in_video_stream =
  width :: nat
  height :: nat
  frames :: nat
  duration :: "nat option"
  average_rate :: "(nat \<times> nat) option"
  base_rate :: "(nat \<times> nat) option"

record in_audio_stream =
  sample_rate :: "nat option"
  rate :: "nat option"
  layout :: "string option"

datatype stream_rate = Fraction nat nat | Whole int

text \<open>\<^verbatim>\<open>str(self.settings.crf_value)\<close> is kept symbolic as \<open>Str_of\<close>.\<close>

datatype option_value = Str_of int | Text string

record out_video_stream =
  out_codec :: string
  out_width :: nat
  out_height :: nat
  out_rate :: "stream_rate option"
  out_pix_fmt :: "string option"
  out_options :: "(string \<times> option_value) list"
  out_bit_rate :: "int option"
  out_thread_count :: "int option"

record out_audio_stream =
  aud_codec :: string
  aud_sample_rate :: nat
  aud_layout :: string
  aud_bit_rate :: int

record video_frame =
  frame_width :: nat
  frame_height :: nat
  frame_index :: nat

type_synonym audio_frame = nat

type_synonym packet = nat

subsection \<open>What the worker emits and what it asks of the framework\<close>

datatype status =
    Initializing
  | ProcessingFrames nat
  | TryingEncoder string
  | AttemptingEncoder string
  | UsingEncoder string
  | EncoderFailed string string
  | ProcessedFrames nat nat
  | ProcessingAudio
  | Finalizing
  | Completed
  | ErrorText string

text \<open>The four places of \<^verbatim>\<open>run\<close> that call \<^verbatim>\<open>output_container.mux\<close>.\<close>

datatype mux_site = VideoEncode | AudioEncode | VideoFlush | AudioFlush

text \<open>
  The signals \<^verbatim>\<open>status_updated\<close>, \<^verbatim>\<open>progress_updated\<close> and \<^verbatim>\<open>finished\<close>, and the calls into
  PyAV that change a container or an encoder, in the order in which \<^verbatim>\<open>run\<close> makes them. A call
  that raises is not recorded, except a call of \<^verbatim>\<open>encode\<close>, which is recorded when the frame is
  handed over.
\<close>

datatype event =
    StatusUpdated status
  | ProgressUpdated nat
  | Finished bool string
  | OpenInput string
  | OpenOutput string
  | CloseInput
  | CloseOutput
  | AddStream string
  | Reformat video_frame nat nat
  | EncodeVideo video_frame
  | EncodeAudio audio_frame
  | FlushVideo
  | FlushAudio
  | Mux mux_site packet

text \<open>
  Everything \<^verbatim>\<open>run\<close> observes from outside. A decoder is the list of what each step of the
  generator \<^verbatim>\<open>input_container.decode(...)\<close> does: it raises or it yields a frame.

  \<open>cancel_at\<close> is the flag \<^verbatim>\<open>is_cancelled\<close>, which \<^verbatim>\<open>cancel()\<close> sets from the GUI thread and
  nothing resets: \<open>Some c\<close> when the first \<open>c\<close> reads by \<^verbatim>\<open>run\<close> return \<^verbatim>\<open>False\<close> and every later
  read returns \<^verbatim>\<open>True\<close>, \<open>None\<close> when \<^verbatim>\<open>cancel()\<close> is not called during the run.

  The two float computations of \<^verbatim>\<open>run\<close> are parameters, since the rounding of doubles is
  outside this model: \<open>percent p t\<close> is the value of \<^verbatim>\<open>int((p / t) * 100)\<close> for \<open>t \<noteq> 0\<close>, and
  \<open>float_product d r\<close> the value of \<^verbatim>\<open>int(d * float(r))\<close>.
\<close>

record env =
  path_exists :: "string \<Rightarrow> bool"
  codecs_available :: "string set"
  open_input_error :: "error option"
  video_streams :: "in_video_stream list"
  audio_streams :: "in_audio_stream list"
  open_output_error :: "error option"
  add_stream_error :: "string \<Rightarrow> error option"
  video_frames :: "(error + video_frame) list"
  audio_frames :: "(error + audio_frame) list"
  reformat_error :: "video_frame \<Rightarrow> nat \<Rightarrow> nat \<Rightarrow> error option"
  encode_video :: "nat \<Rightarrow> video_frame \<Rightarrow> error + packet list"
  encode_audio :: "nat \<Rightarrow> audio_frame \<Rightarrow> error + packet list"
  flush_video :: "error + packet list"
  flush_audio :: "error + packet list"
  mux_error :: "mux_site \<Rightarrow> packet \<Rightarrow> error option"
  close_input_error :: "error option"
  close_output_error :: "error option"
  cancel_at :: "nat option"
  percent :: "nat \<Rightarrow> nat \<Rightarrow> nat"
  float_product :: "nat \<Rightarrow> nat \<times> nat \<Rightarrow> nat"

subsection \<open>Sequencing with exceptions\<close>

text \<open>
  A piece of \<^verbatim>\<open>run\<close> yields the events it caused and either its result or the exception
  that ended it.
\<close>

type_synonym 'a act = "(error + 'a) \<times> event list"

definition ret :: "'a \<Rightarrow> 'a act" where
  "ret x = (Inr x, [])"

definition raise :: "error \<Rightarrow> 'a act" where
  "raise e = (Inl e, [])"

definition emit :: "event \<Rightarrow> unit act" where
  "emit ev = (Inr (), [ev])"

definition lift :: "error + 'a \<Rightarrow> 'a act" where
  "lift r = (r, [])"

definition bnd :: "'a act \<Rightarrow> ('a \<Rightarrow> 'b act) \<Rightarrow> 'b act" where
  "bnd m f =
     (case m of
        (Inl e, evs) \<Rightarrow> (Inl e, evs)
      | (Inr x, evs) \<Rightarrow> (case f x of (r, evs') \<Rightarrow> (r, evs @ evs')))"

definition seq :: "'a act \<Rightarrow> 'b act \<Rightarrow> 'b act" where
  "seq m k = bnd m (\<lambda>_. k)"

text \<open>\<^verbatim>\<open>try: m  except Exception as e: h e\<close>.\<close>

definition catch :: "'a act \<Rightarrow> (error \<Rightarrow> 'a act) \<Rightarrow> 'a act" where
  "catch m h =
     (case m of
        (Inl e, evs) \<Rightarrow> (case h e of (r, evs') \<Rightarrow> (r, evs @ evs'))
      | (Inr x, evs) \<Rightarrow> (Inr x, evs))"

text \<open>A framework call that raises or happens.\<close>

definition call :: "error option \<Rightarrow> event \<Rightarrow> unit act" where
  "call failure ev = (case failure of Some e \<Rightarrow> raise e | None \<Rightarrow> emit ev)"

subsection \<open>\<^verbatim>\<open>setup_video_encoder\<close> and \<^verbatim>\<open>setup_audio_encoder\<close>\<close>

text \<open>
  The stream \<^verbatim>\<open>add_stream\<close> returns; the fields the method does not assign are \<open>None\<close> or
  empty, the dimensions are assigned on either branch.
\<close>

definition new_video_stream :: "string \<Rightarrow> out_video_stream" where
  "new_video_stream encoder_name =
     \<lparr>out_codec = encoder_name, out_width = 640, out_height = 480, out_rate = None,
      out_pix_fmt = None, out_options = [], out_bit_rate = None, out_thread_count = None\<rparr>"

text \<open>
  \<^verbatim>\<open>hasattr(stream, 'r') and stream.r\<close>: the rate when the test holds. A \<^verbatim>\<open>Fraction\<close> is true
  when it is not zero.
\<close>

definition given :: "(nat \<times> nat) option \<Rightarrow> (nat \<times> nat) option" where
  "given r = (case r of Some (n, d) \<Rightarrow> if n \<noteq> 0 then Some (n, d) else None | None \<Rightarrow> None)"

definition input_rate :: "in_video_stream \<Rightarrow> stream_rate" where
  "input_rate input_stream =
     (case given (average_rate input_stream) of
        Some (n, d) \<Rightarrow> Fraction n d
      | None \<Rightarrow>
          (case given (base_rate input_stream) of
             Some (n, d) \<Rightarrow> Fraction n d
           | None \<Rightarrow> Whole 30))"

definition crf_options :: "CompressionSettings \<Rightarrow> string \<Rightarrow> (string \<times> option_value) list" where
  "crf_options s encoder_name =
     (if contains ''nvenc'' encoder_name then
        [(if contains ''h264_nvenc'' encoder_name then ''crf'' else ''cq'', Str_of (crf_value s)),
         (''preset'', Text ''medium'')]
      else if contains ''qsv'' encoder_name then
        [(''global_quality'', Str_of (crf_value s))]
      else
        [(''crf'', Str_of (crf_value s)), (''preset'', Text (preset s))])"

definition sized :: "CompressionSettings \<Rightarrow> in_video_stream \<Rightarrow> out_video_stream \<Rightarrow> out_video_stream" where
  "sized s input_stream output_stream =
     (if resolution s = ''original'' then
        output_stream\<lparr>out_width := width input_stream, out_height := height input_stream\<rparr>
      else
        (case get_resolution_dimensions (resolution s) of
           (w, h) \<Rightarrow> output_stream\<lparr>out_width := w, out_height := h\<rparr>))"

definition setup_video_encoder ::
  "env \<Rightarrow> CompressionSettings \<Rightarrow> string \<Rightarrow> in_video_stream \<Rightarrow> out_video_stream act" where
  "setup_video_encoder env s encoder_name input_stream =
     seq (catch (call (add_stream_error env encoder_name) (AddStream encoder_name))
            (\<lambda>e. raise (RuntimeError
               (''Failed to create stream with encoder '' @ encoder_name @ '': '' @ str e))))
     (bnd (if fps s = ''original'' then ret (input_rate input_stream)
           else bnd (lift (py_int (fps s))) (\<lambda>r. ret (Whole r)))
      (\<lambda>r.
     bnd (if quality_mode s = ''crf'' then
            ret ((sized s input_stream (new_video_stream encoder_name))
                   \<lparr>out_rate := Some r, out_pix_fmt := Some ''yuv420p'',
                    out_options := crf_options s encoder_name\<rparr>)
          else
            bnd (lift (parse_bitrate (bitrate s)))
              (\<lambda>b. ret ((sized s input_stream (new_video_stream encoder_name))
                   \<lparr>out_rate := Some r, out_pix_fmt := Some ''yuv420p'',
                    out_bit_rate := Some b\<rparr>)))
      (\<lambda>output_stream.
     ret (if threads s > 0 then output_stream\<lparr>out_thread_count := Some (threads s)\<rparr>
          else output_stream))))"

definition setup_audio_encoder ::
  "env \<Rightarrow> CompressionSettings \<Rightarrow> in_audio_stream \<Rightarrow> out_audio_stream act" where
  "setup_audio_encoder env s input_stream =
     seq (call (add_stream_error env (audio_codec s)) (AddStream (audio_codec s)))
     (bnd (lift (parse_bitrate (audio_bitrate s)))
      (\<lambda>b. ret \<lparr>aud_codec = audio_codec s,
                 aud_sample_rate =
                   (case sample_rate input_stream of
                      Some r \<Rightarrow> r
                    | None \<Rightarrow> (case rate input_stream of Some r \<Rightarrow> r | None \<Rightarrow> 44100)),
                 aud_layout = (case layout input_stream of Some l \<Rightarrow> l | None \<Rightarrow> ''stereo''),
                 aud_bit_rate = b\<rparr>))"

subsection \<open>\<^verbatim>\<open>resize_frame\<close> and the loops of \<^verbatim>\<open>run\<close>\<close>

definition resize_frame :: "env \<Rightarrow> CompressionSettings \<Rightarrow> video_frame \<Rightarrow> video_frame act" where
  "resize_frame env s frame =
     (case get_resolution_dimensions (resolution s) of
        (w, h) \<Rightarrow>
          seq (call (reformat_error env frame w h) (Reformat frame w h))
            (ret (frame\<lparr>frame_width := w, frame_height := h\<rparr>)))"

text \<open>\<^verbatim>\<open>for packet in packets: output_container.mux(packet)\<close>.\<close>

fun mux_all :: "env \<Rightarrow> mux_site \<Rightarrow> packet list \<Rightarrow> unit act" where
  "mux_all env site [] = ret ()"
| "mux_all env site (p # ps) = seq (call (mux_error env site p) (Mux site p)) (mux_all env site ps)"

text \<open>The value of \<^verbatim>\<open>self.is_cancelled\<close> at the read with number \<open>rd\<close>, counted from \<open>0\<close>.\<close>

definition is_cancelled :: "env \<Rightarrow> nat \<Rightarrow> bool" where
  "is_cancelled env rd = (case cancel_at env of None \<Rightarrow> False | Some c \<Rightarrow> c \<le> rd)"

text \<open>
  The body of the video loop after the flag was read, for the frame with \<open>n\<close> frames processed
  before it; the result is the new value of \<^verbatim>\<open>processed_frames\<close>.
\<close>

definition video_step ::
  "env \<Rightarrow> CompressionSettings \<Rightarrow> nat \<Rightarrow> video_frame \<Rightarrow> nat \<Rightarrow> nat act" where
  "video_step env s total_frames frame n =
     bnd (if resolution s \<noteq> ''original'' then resize_frame env s frame else ret frame)
      (\<lambda>frame.
     seq (emit (EncodeVideo frame))
     (bnd (lift (encode_video env n frame))
      (\<lambda>packets.
     seq (mux_all env VideoEncode packets)
     (bnd (if total_frames = 0 then raise (ZeroDivisionError ''division by zero'')
           else ret (min 100 (percent env (n + 1) total_frames)))
      (\<lambda>progress.
     seq (emit (ProgressUpdated progress))
     (seq (if (n + 1) mod 30 = 0
           then emit (StatusUpdated (ProcessedFrames (n + 1) total_frames))
           else ret ())
     (ret (n + 1))))))))"

text \<open>
  The video loop. The generator has produced the frame (or raised) before the flag is read.
  The state is \<^verbatim>\<open>processed_frames\<close> and the number of reads of the flag so far.
\<close>

fun video_loop ::
  "env \<Rightarrow> CompressionSettings \<Rightarrow> nat \<Rightarrow> (error + video_frame) list \<Rightarrow> nat \<times> nat
     \<Rightarrow> (nat \<times> nat) act" where
  "video_loop env s total_frames [] (n, rd) = ret (n, rd)"
| "video_loop env s total_frames (Inl e # rest) (n, rd) = raise e"
| "video_loop env s total_frames (Inr frame # rest) (n, rd) =
     (if is_cancelled env rd then ret (n, Suc rd)
      else bnd (video_step env s total_frames frame n)
             (\<lambda>n'. video_loop env s total_frames rest (n', Suc rd)))"

text \<open>The audio loop; the state is the number of audio frames encoded and the reads so far.\<close>

fun audio_loop :: "env \<Rightarrow> (error + audio_frame) list \<Rightarrow> nat \<times> nat \<Rightarrow> nat act" where
  "audio_loop env [] (k, rd) = ret rd"
| "audio_loop env (Inl e # rest) (k, rd) = raise e"
| "audio_loop env (Inr frame # rest) (k, rd) =
     (if is_cancelled env rd then ret (Suc rd)
      else seq (emit (EncodeAudio frame))
           (bnd (lift (encode_audio env k frame))
            (\<lambda>packets.
           seq (mux_all env AudioEncode packets)
             (audio_loop env rest (Suc k, Suc rd)))))"

subsection \<open>\<^verbatim>\<open>run\<close>\<close>

definition estimate_total_frames :: "env \<Rightarrow> in_video_stream \<Rightarrow> nat" where
  "estimate_total_frames env video_stream =
     (if frames video_stream \<noteq> 0 then frames video_stream
      else
        (case duration video_stream of
           None \<Rightarrow> 1000
         | Some d \<Rightarrow>
             if d = 0 then 1000
             else
               (case given (average_rate video_stream) of
                  Some r \<Rightarrow> float_product env d r
                | None \<Rightarrow> d * 30)))"

text \<open>
  \<^verbatim>\<open>input_container.streams.video[0]\<close> raises \<^verbatim>\<open>IndexError\<close> on an input without a video
  stream. A stream object is true, so the \<^verbatim>\<open>raise ValueError\<close> that follows is not reached.
\<close>

definition open_input :: "env \<Rightarrow> CompressionSettings \<Rightarrow> in_video_stream act" where
  "open_input env s =
     seq (emit (StatusUpdated Initializing))
     (if \<not> path_exists env (input_file s) then
        raise (FileNotFoundError (''Input file not found: '' @ input_file s))
      else
        seq (call (open_input_error env) (OpenInput (input_file s)))
          (case video_streams env of
             [] \<Rightarrow> raise (IndexError ''tuple index out of range'')
           | video_stream # _ \<Rightarrow> ret video_stream))"

text \<open>The list \<^verbatim>\<open>[encoder_name] + fallback_encoders\<close> the attempt loop walks.\<close>

definition attempt_plan :: "env \<Rightarrow> CompressionSettings \<Rightarrow> string list" where
  "attempt_plan env s =
     get_optimal_encoder (codecs_available env) (codec s) # get_fallback_encoders (codec s)"

text \<open>The attempt loop; the result is the value of \<^verbatim>\<open>video_output_stream\<close> after it.\<close>

fun try_encoders ::
  "env \<Rightarrow> CompressionSettings \<Rightarrow> in_video_stream \<Rightarrow> string list \<Rightarrow> out_video_stream option act"
  where
  "try_encoders env s video_stream [] = ret None"
| "try_encoders env s video_stream (attempt_encoder # rest) =
     catch
       (seq (emit (StatusUpdated (AttemptingEncoder attempt_encoder)))
          (bnd (setup_video_encoder env s attempt_encoder video_stream)
             (\<lambda>stream. seq (emit (StatusUpdated (UsingEncoder attempt_encoder)))
                          (ret (Some stream)))))
       (\<lambda>e. seq (emit (StatusUpdated (EncoderFailed attempt_encoder (str e))))
              (try_encoders env s video_stream rest))"

definition setup_audio ::
  "env \<Rightarrow> CompressionSettings \<Rightarrow> out_audio_stream option act" where
  "setup_audio env s =
     (case audio_streams env of
        [] \<Rightarrow> ret None
      | a # _ \<Rightarrow> bnd (setup_audio_encoder env s a) (\<lambda>stream. ret (Some stream)))"

definition process_audio :: "env \<Rightarrow> out_audio_stream option \<Rightarrow> nat \<Rightarrow> nat act" where
  "process_audio env audio_output_stream rd =
     (case audio_output_stream of
        None \<Rightarrow> ret rd
      | Some _ \<Rightarrow>
          seq (emit (StatusUpdated ProcessingAudio))
            (audio_loop env (audio_frames env) (0, rd)))"

definition flush_encoders :: "env \<Rightarrow> out_audio_stream option \<Rightarrow> nat \<Rightarrow> unit act" where
  "flush_encoders env audio_output_stream rd =
     (if \<not> is_cancelled env rd then
        seq (emit (StatusUpdated Finalizing))
        (seq (emit FlushVideo)
        (bnd (lift (flush_video env))
         (\<lambda>packets.
        seq (mux_all env VideoFlush packets)
        (case audio_output_stream of
           None \<Rightarrow> ret ()
         | Some _ \<Rightarrow>
             seq (emit FlushAudio)
               (bnd (lift (flush_audio env)) (\<lambda>packets. mux_all env AudioFlush packets))))))
      else ret ())"

definition close_containers :: "env \<Rightarrow> unit act" where
  "close_containers env =
     seq (call (close_input_error env) CloseInput) (call (close_output_error env) CloseOutput)"

text \<open>The last statement of the \<^verbatim>\<open>try\<close> block; the result tells whether the flag was set.\<close>

definition report :: "env \<Rightarrow> nat \<Rightarrow> bool act" where
  "report env rd =
     (if is_cancelled env rd then
        seq (emit (Finished False ''Compression cancelled by user'')) (ret True)
      else
        seq (emit (StatusUpdated Completed))
        (seq (emit (ProgressUpdated 100))
        (seq (emit (Finished True ''Compression completed successfully!'')) (ret False))))"

text \<open>From the first decoded frame to the end of the \<^verbatim>\<open>try\<close> block.\<close>

definition transcode ::
  "env \<Rightarrow> CompressionSettings \<Rightarrow> nat \<Rightarrow> out_audio_stream option \<Rightarrow> (bool \<times> nat) act" where
  "transcode env s total_frames audio_output_stream =
     bnd (video_loop env s total_frames (video_frames env) (0, 0))
      (\<lambda>(processed_frames, rd).
     bnd (process_audio env audio_output_stream rd)
      (\<lambda>rd.
     seq (flush_encoders env audio_output_stream rd)
     (seq (close_containers env)
     (bnd (report env (Suc rd)) (\<lambda>cancelled. ret (cancelled, Suc (Suc rd)))))))"

text \<open>
  The \<^verbatim>\<open>try\<close> block of \<^verbatim>\<open>run\<close>. Its result is whether the run was cancelled, with the number
  of times the flag was read.
\<close>

definition body :: "env \<Rightarrow> CompressionSettings \<Rightarrow> (bool \<times> nat) act" where
  "body env s =
     bnd (open_input env s)
      (\<lambda>video_stream.
     seq (emit (StatusUpdated (ProcessingFrames (estimate_total_frames env video_stream))))
     (seq (emit (StatusUpdated (TryingEncoder (get_optimal_encoder (codecs_available env) (codec s)))))
     (seq (call (open_output_error env) (OpenOutput (output_file s)))
     (bnd (try_encoders env s video_stream (attempt_plan env s))
      (\<lambda>video_output_stream.
     (case video_output_stream of
        None \<Rightarrow> raise (RuntimeError ''No working video encoder found'')
      | Some _ \<Rightarrow>
          bnd (setup_audio env s)
            (\<lambda>audio_output_stream.
               transcode env s (estimate_total_frames env video_stream) audio_output_stream)))))))"

text \<open>
  \<^verbatim>\<open>run\<close>: the \<^verbatim>\<open>try\<close> block and the handler of \<^verbatim>\<open>except Exception\<close>; the result is the events
  in order. The \<^verbatim>\<open>finally\<close> block calls \<^verbatim>\<open>gc.collect()\<close>, which emits nothing and leaves
  the containers, still bound to the locals of \<^verbatim>\<open>run\<close>, as they are.
\<close>

definition error_msg :: "error \<Rightarrow> string" where
  "error_msg e = ''Compression failed: '' @ str e"

definition run :: "env \<Rightarrow> CompressionSettings \<Rightarrow> event list" where
  "run env s =
     snd (catch (body env s)
            (\<lambda>e. seq (emit (StatusUpdated (ErrorText (error_msg e))))
                   (seq (emit (Finished False (error_msg e))) (ret (False, 0)))))"

subsection \<open>Reading a run\<close>

text \<open>How the \<^verbatim>\<open>try\<close> block ended.\<close>

datatype outcome = Succeeded | Cancelled | Failed error

definition outcome :: "env \<Rightarrow> CompressionSettings \<Rightarrow> outcome" where
  "outcome env s =
     (case fst (body env s) of
        Inl e \<Rightarrow> Failed e
      | Inr (cancelled, rd) \<Rightarrow> if cancelled then Cancelled else Succeeded)"

text \<open>The values sent on \<^verbatim>\<open>progress_updated\<close> and the pairs sent on \<^verbatim>\<open>finished\<close>, in order.\<close>

definition progress_values :: "event list \<Rightarrow> nat list" where
  "progress_values evs = concat (map (\<lambda>ev. case ev of ProgressUpdated p \<Rightarrow> [p] | _ \<Rightarrow> []) evs)"

definition terminals :: "event list \<Rightarrow> (bool \<times> string) list" where
  "terminals evs = concat (map (\<lambda>ev. case ev of Finished ok msg \<Rightarrow> [(ok, msg)] | _ \<Rightarrow> []) evs)"

text \<open>The frames handed to the video and to the audio encoder.\<close>

definition video_submitted :: "event list \<Rightarrow> video_frame list" where
  "video_submitted evs = concat (map (\<lambda>ev. case ev of EncodeVideo f \<Rightarrow> [f] | _ \<Rightarrow> []) evs)"

definition audio_submitted :: "event list \<Rightarrow> audio_frame list" where
  "audio_submitted evs = concat (map (\<lambda>ev. case ev of EncodeAudio f \<Rightarrow> [f] | _ \<Rightarrow> []) evs)"

text \<open>The encoder statuses of the attempt loop.\<close>

definition attempt_statuses :: "event list \<Rightarrow> status list" where
  "attempt_statuses evs =
     concat (map (\<lambda>ev. case ev of
                          StatusUpdated (AttemptingEncoder a) \<Rightarrow> [AttemptingEncoder a]
                        | StatusUpdated (UsingEncoder a) \<Rightarrow> [UsingEncoder a]
                        | StatusUpdated (EncoderFailed a m) \<Rightarrow> [EncoderFailed a m]
                        | _ \<Rightarrow> []) evs)"

text \<open>What belongs to the flush phase: its status, the two flush calls and what they mux.\<close>

fun flush_event :: "event \<Rightarrow> bool" where
  "flush_event (StatusUpdated Finalizing) = True"
| "flush_event FlushVideo = True"
| "flush_event FlushAudio = True"
| "flush_event (Mux VideoFlush p) = True"
| "flush_event (Mux AudioFlush p) = True"
| "flush_event _ = False"

fun failure_status :: "event \<Rightarrow> bool" where
  "failure_status (StatusUpdated (ErrorText m)) = True"
| "failure_status _ = False"

fun stream_added :: "event \<Rightarrow> bool" where
  "stream_added (AddStream a) = True"
| "stream_added _ = False"

fun is_progress :: "event \<Rightarrow> bool" where
  "is_progress (ProgressUpdated p) = True"
| "is_progress _ = False"

fun is_terminal :: "event \<Rightarrow> bool" where
  "is_terminal (Finished ok msg) = True"
| "is_terminal _ = False"

fun is_video_encode :: "event \<Rightarrow> bool" where
  "is_video_encode (EncodeVideo f) = True"
| "is_video_encode _ = False"

fun is_audio_encode :: "event \<Rightarrow> bool" where
  "is_audio_encode (EncodeAudio f) = True"
| "is_audio_encode _ = False"

fun is_attempt_status :: "event \<Rightarrow> bool" where
  "is_attempt_status (StatusUpdated (AttemptingEncoder a)) = True"
| "is_attempt_status (StatusUpdated (UsingEncoder a)) = True"
| "is_attempt_status (StatusUpdated (EncoderFailed a m)) = True"
| "is_attempt_status _ = False"

text \<open>What a run emits before the first frame is decoded.\<close>

fun setup_event :: "event \<Rightarrow> bool" where
  "setup_event (StatusUpdated Initializing) = True"
| "setup_event (StatusUpdated (ProcessingFrames n)) = True"
| "setup_event (StatusUpdated (TryingEncoder a)) = True"
| "setup_event (StatusUpdated (AttemptingEncoder a)) = True"
| "setup_event (StatusUpdated (UsingEncoder a)) = True"
| "setup_event (StatusUpdated (EncoderFailed a m)) = True"
| "setup_event (OpenInput p) = True"
| "setup_event (OpenOutput p) = True"
| "setup_event (AddStream a) = True"
| "setup_event _ = False"

text \<open>No event of a piece of \<^verbatim>\<open>run\<close> is of the given kind.\<close>

definition avoids :: "(event \<Rightarrow> bool) \<Rightarrow> 'a act \<Rightarrow> bool" where
  "avoids P m = (\<not> list_ex P (snd m))"

text \<open>The failure message of an encoder attempt, when the attempt fails.\<close>

definition attempt_failure ::
  "env \<Rightarrow> CompressionSettings \<Rightarrow> in_video_stream \<Rightarrow> string \<Rightarrow> string option" where
  "attempt_failure env s video_stream a =
     (case fst (setup_video_encoder env s a video_stream) of
        Inl e \<Rightarrow> Some (str e)
      | Inr _ \<Rightarrow> None)"

text \<open>The statuses one encoder attempt sends.\<close>

definition attempt_report ::
  "env \<Rightarrow> CompressionSettings \<Rightarrow> in_video_stream \<Rightarrow> string \<Rightarrow> status list" where
  "attempt_report env s video_stream a =
     (case attempt_failure env s video_stream a of
        Some m \<Rightarrow> [AttemptingEncoder a, EncoderFailed a m]
      | None \<Rightarrow> [AttemptingEncoder a, UsingEncoder a])"

text \<open>How often a run that raised no exception read the flag.\<close>

definition reads_made :: "env \<Rightarrow> CompressionSettings \<Rightarrow> nat option" where
  "reads_made env s =
     (case fst (body env s) of Inl e \<Rightarrow> None | Inr (cancelled, rd) \<Rightarrow> Some rd)"

subsection \<open>A sample input\<close>

text \<open>
  A four-frame input with one audio stream, a framework in which every call succeeds, and the
  float computations done exactly.
\<close>

definition frame4k :: "nat \<Rightarrow> video_frame" where
  "frame4k i = \<lparr>frame_width = 3840, frame_height = 2160, frame_index = i\<rparr>"

definition clip :: env where
  "clip =
     \<lparr>path_exists = (\<lambda>p. p = ''in.mp4''),
      codecs_available = {''libx264'', ''aac''},
      open_input_error = None,
      video_streams =
        [\<lparr>width = 3840, height = 2160, frames = 4, duration = Some 4000,
          average_rate = Some (30, 1), base_rate = None\<rparr>],
      audio_streams = [\<lparr>sample_rate = Some 48000, rate = None, layout = Some ''stereo''\<rparr>],
      open_output_error = None,
      add_stream_error = (\<lambda>a. None),
      video_frames = [Inr (frame4k 0), Inr (frame4k 1), Inr (frame4k 2), Inr (frame4k 3)],
      audio_frames = [Inr 0, Inr 1],
      reformat_error = (\<lambda>f w h. None),
      encode_video = (\<lambda>n f. Inr [n]),
      encode_audio = (\<lambda>k f. Inr [100 + k]),
      flush_video = Inr [50],
      flush_audio = Inr [150],
      mux_error = (\<lambda>site p. None),
      close_input_error = None,
      close_output_error = None,
      cancel_at = None,
      percent = (\<lambda>p t. p * 100 div t),
      float_product = (\<lambda>d r. d * fst r div snd r)\<rparr>"

definition defaults :: CompressionSettings where
  "defaults =
     \<lparr>input_file = ''in.mp4'', output_file = ''out.mp4'', codec = ''h264'',
      quality_mode = ''crf'', crf_value = 23, bitrate = ''1M'', resolution = ''original'',
      fps = ''original'', gpu_acceleration = ''auto'', preset = ''medium'',
      audio_codec = ''aac'', audio_bitrate = ''128k'', threads = 0\<rparr>"

section \<open>Proofs\<close>

subsection \<open>Parsing\<close>

lemma digit_cases:
  "is_digit c \<Longrightarrow>
     c = CHR ''0'' \<or> c = CHR ''1'' \<or> c = CHR ''2'' \<or> c = CHR ''3'' \<or> c = CHR ''4'' \<or>
     c = CHR ''5'' \<or> c = CHR ''6'' \<or> c = CHR ''7'' \<or> c = CHR ''8'' \<or> c = CHR ''9''"
  by (simp add: is_digit_def)

lemma upper_char_digit: "is_digit c \<Longrightarrow> upper_char c = c"
  by (drule digit_cases, elim disjE)
    (simp_all add: upper_char_def ascii_lowercase_def ascii_uppercase_def)

lemma upper_digits: "list_all is_digit ds \<Longrightarrow> upper ds = ds"
  by (induction ds) (simp_all add: upper_def upper_char_digit)

lemma digit_not_dot: "is_digit c \<Longrightarrow> c \<noteq> CHR ''.''"
  by (drule digit_cases, elim disjE) simp_all

lemma digit_not_suffix: "is_digit c \<Longrightarrow> c \<noteq> CHR ''K'' \<and> c \<noteq> CHR ''M''"
  by (drule digit_cases, elim disjE) simp_all

lemma py_float_digits:
  assumes "ds \<noteq> []" "list_all is_digit ds"
  shows "py_float ds = Inr (digits_val ds, 0)"
proof -
  have "\<forall>c\<in>set ds. c \<noteq> CHR ''.''"
    using assms(2) by (auto simp: list_all_iff digit_not_dot)
  then have tw: "takeWhile (\<lambda>c. c \<noteq> CHR ''.'') ds = ds"
    and dw: "dropWhile (\<lambda>c. c \<noteq> CHR ''.'') ds = []"
    by simp_all
  show ?thesis
    unfolding py_float_def Let_def tw dw using assms by simp
qed

lemma endswith_digits:
  assumes "ds \<noteq> []" "list_all is_digit ds"
  shows "\<not> endswith ds (CHR ''K'')" "\<not> endswith ds (CHR ''M'')"
proof -
  have "is_digit (last ds)" using assms by (simp add: list_all_iff)
  then show "\<not> endswith ds (CHR ''K'')" "\<not> endswith ds (CHR ''M'')"
    using digit_not_suffix by (auto simp: endswith_def)
qed

lemma parse_general:
  assumes "ds \<noteq> []" "list_all is_digit ds"
  shows "parse_bitrate (ds @ ''K'') = Inr (int (digits_val ds) * 1000)"
    "parse_bitrate (ds @ ''k'') = Inr (int (digits_val ds) * 1000)"
    "parse_bitrate (ds @ ''M'') = Inr (int (digits_val ds) * 1000000)"
    "parse_bitrate (ds @ ''m'') = Inr (int (digits_val ds) * 1000000)"
    "parse_bitrate ds = Inr (int (digits_val ds))"
proof -
  have u: "upper (ds @ ''K'') = ds @ ''K''" "upper (ds @ ''k'') = ds @ ''K''"
     "upper (ds @ ''M'') = ds @ ''M''" "upper (ds @ ''m'') = ds @ ''M''"
    using upper_digits[OF assms(2)]
    by (simp_all add: upper_def upper_char_def ascii_lowercase_def ascii_uppercase_def)
  show "parse_bitrate (ds @ ''K'') = Inr (int (digits_val ds) * 1000)"
    "parse_bitrate (ds @ ''k'') = Inr (int (digits_val ds) * 1000)"
    "parse_bitrate (ds @ ''M'') = Inr (int (digits_val ds) * 1000000)"
    "parse_bitrate (ds @ ''m'') = Inr (int (digits_val ds) * 1000000)"
    using py_float_digits[OF assms]
    by (simp_all add: parse_bitrate_def u endswith_def int_of_scaled_def)
  show "parse_bitrate ds = Inr (int (digits_val ds))"
    using assms endswith_digits[OF assms] upper_digits[OF assms(2)]
    by (simp add: parse_bitrate_def py_int_def)
qed

subsection \<open>Results and events of sequenced pieces\<close>

lemma fst_bnd: "fst (bnd m f) = (case fst m of Inl e \<Rightarrow> Inl e | Inr x \<Rightarrow> fst (f x))"
  by (auto simp: bnd_def split: prod.splits sum.splits)

lemma snd_bnd: "snd (bnd m f) = (case fst m of Inl e \<Rightarrow> snd m | Inr x \<Rightarrow> snd m @ snd (f x))"
  by (auto simp: bnd_def split: prod.splits sum.splits)

lemma fst_seq: "fst (seq m k) = (case fst m of Inl e \<Rightarrow> Inl e | Inr x \<Rightarrow> fst k)"
  by (simp add: seq_def fst_bnd)

lemma snd_seq: "snd (seq m k) = (case fst m of Inl e \<Rightarrow> snd m | Inr x \<Rightarrow> snd m @ snd k)"
  by (simp add: seq_def snd_bnd)

lemma fst_catch: "fst (catch m h) = (case fst m of Inl e \<Rightarrow> fst (h e) | Inr x \<Rightarrow> Inr x)"
  by (auto simp: catch_def split: prod.splits sum.splits)

lemma snd_catch: "snd (catch m h) = (case fst m of Inl e \<Rightarrow> snd m @ snd (h e) | Inr x \<Rightarrow> snd m)"
  by (auto simp: catch_def split: prod.splits sum.splits)

lemma act_prims:
  "fst (ret x) = Inr x" "snd (ret x) = []"
  "fst (raise e) = Inl e" "snd (raise e) = []"
  "fst (emit ev) = Inr ()" "snd (emit ev) = [ev]"
  "fst (lift r) = r" "snd (lift r) = []"
  "fst (call failure ev) = (case failure of Some e \<Rightarrow> Inl e | None \<Rightarrow> Inr ())"
  "snd (call failure ev) = (case failure of Some e \<Rightarrow> [] | None \<Rightarrow> [ev])"
  by (simp_all add: ret_def raise_def emit_def lift_def call_def split: option.splits)

lemmas act_simps = fst_bnd snd_bnd fst_seq snd_seq fst_catch snd_catch act_prims

lemma avoids_prims:
  "avoids P (ret x)" "avoids P (raise e)" "avoids P (lift r)"
  "\<not> P ev \<Longrightarrow> avoids P (emit ev)" "\<not> P ev \<Longrightarrow> avoids P (call failure ev)"
  by (simp_all add: avoids_def act_prims split: option.splits)

lemma avoids_bnd:
  "avoids P m \<Longrightarrow> (\<And>x. fst m = Inr x \<Longrightarrow> avoids P (f x)) \<Longrightarrow> avoids P (bnd m f)"
  by (auto simp: avoids_def snd_bnd split: sum.splits)

lemma avoids_seq: "avoids P m \<Longrightarrow> avoids P k \<Longrightarrow> avoids P (seq m k)"
  by (simp add: seq_def avoids_bnd)

lemma avoids_catch:
  "avoids P m \<Longrightarrow> (\<And>e. fst m = Inl e \<Longrightarrow> avoids P (h e)) \<Longrightarrow> avoids P (catch m h)"
  by (auto simp: avoids_def snd_catch split: sum.splits)

lemmas avoids_intros = avoids_prims avoids_bnd avoids_seq avoids_catch

lemma avoids_mux_all: "(\<And>p. \<not> P (Mux site p)) \<Longrightarrow> avoids P (mux_all env site ps)"
  by (induction ps) (auto intro!: avoids_intros)

lemma avoids_resize_frame: "(\<And>f w h. \<not> P (Reformat f w h)) \<Longrightarrow> avoids P (resize_frame env s frame)"
  by (auto simp: resize_frame_def intro!: avoids_intros split: prod.splits)

lemma avoids_setup_video:
  "(\<And>a. \<not> P (AddStream a)) \<Longrightarrow> avoids P (setup_video_encoder env s a vs)"
  by (auto simp: setup_video_encoder_def intro!: avoids_intros)

lemma avoids_setup_audio: "(\<And>a. \<not> P (AddStream a)) \<Longrightarrow> avoids P (setup_audio env s)"
  by (auto simp: setup_audio_def setup_audio_encoder_def intro!: avoids_intros split: list.splits)

lemma avoids_open_input:
  "\<not> P (StatusUpdated Initializing) \<Longrightarrow> (\<And>p. \<not> P (OpenInput p)) \<Longrightarrow> avoids P (open_input env s)"
  by (auto simp: open_input_def intro!: avoids_intros split: list.splits)

lemma avoids_try_encoders:
  assumes "\<And>a. \<not> P (AddStream a)" "\<And>a. \<not> P (StatusUpdated (AttemptingEncoder a))"
    "\<And>a. \<not> P (StatusUpdated (UsingEncoder a))" "\<And>a m. \<not> P (StatusUpdated (EncoderFailed a m))"
  shows "avoids P (try_encoders env s vs plan)"
  using assms by (induction plan) (auto intro!: avoids_intros avoids_setup_video)

lemma avoids_video_step:
  assumes "\<And>f w h. \<not> P (Reformat f w h)" "\<And>f. \<not> P (EncodeVideo f)" "\<And>p. \<not> P (Mux VideoEncode p)"
    "\<And>p. \<not> P (ProgressUpdated p)" "\<And>a b. \<not> P (StatusUpdated (ProcessedFrames a b))"
  shows "avoids P (video_step env s t fr n)"
  using assms by (auto simp: video_step_def intro!: avoids_intros avoids_resize_frame avoids_mux_all)

lemma avoids_video_loop:
  assumes "\<And>f w h. \<not> P (Reformat f w h)" "\<And>f. \<not> P (EncodeVideo f)" "\<And>p. \<not> P (Mux VideoEncode p)"
    "\<And>p. \<not> P (ProgressUpdated p)" "\<And>a b. \<not> P (StatusUpdated (ProcessedFrames a b))"
  shows "avoids P (video_loop env s t fs st)"
  using assms
  by (induction env s t fs st rule: video_loop.induct) (auto intro!: avoids_intros avoids_video_step)

lemma avoids_audio_loop:
  assumes "\<And>f. \<not> P (EncodeAudio f)" "\<And>p. \<not> P (Mux AudioEncode p)"
  shows "avoids P (audio_loop env fs st)"
  using assms
  by (induction env fs st rule: audio_loop.induct) (auto intro!: avoids_intros avoids_mux_all)

lemma avoids_process_audio:
  assumes "\<And>f. \<not> P (EncodeAudio f)" "\<And>p. \<not> P (Mux AudioEncode p)" "\<not> P (StatusUpdated ProcessingAudio)"
  shows "avoids P (process_audio env aos rd)"
  using assms by (auto simp: process_audio_def intro!: avoids_intros avoids_audio_loop split: option.splits)

lemma avoids_flush_encoders:
  assumes "\<not> P (StatusUpdated Finalizing)" "\<not> P FlushVideo" "\<not> P FlushAudio"
    "\<And>p. \<not> P (Mux VideoFlush p)" "\<And>p. \<not> P (Mux AudioFlush p)"
  shows "avoids P (flush_encoders env aos rd)"
  using assms by (auto simp: flush_encoders_def intro!: avoids_intros avoids_mux_all split: option.splits)

lemma avoids_close: "\<not> P CloseInput \<Longrightarrow> \<not> P CloseOutput \<Longrightarrow> avoids P (close_containers env)"
  by (auto simp: close_containers_def intro!: avoids_intros)

subsection \<open>Reading events off a piece\<close>

lemma proj_append [simp]:
  "progress_values (xs @ ys) = progress_values xs @ progress_values ys"
  "video_submitted (xs @ ys) = video_submitted xs @ video_submitted ys"
  "terminals (xs @ ys) = terminals xs @ terminals ys"
  "audio_submitted (xs @ ys) = audio_submitted xs @ audio_submitted ys"
  "attempt_statuses (xs @ ys) = attempt_statuses xs @ attempt_statuses ys"
  by (simp_all add: progress_values_def terminals_def video_submitted_def audio_submitted_def
      attempt_statuses_def)

lemma proj_Nil [simp]:
  "progress_values [] = []" "terminals [] = []" "video_submitted [] = []"
  "audio_submitted [] = []" "attempt_statuses [] = []"
  by (simp_all add: progress_values_def terminals_def video_submitted_def audio_submitted_def
      attempt_statuses_def)

lemma proj_Cons [simp]:
  "progress_values (ev # evs) = (case ev of ProgressUpdated p \<Rightarrow> [p] | _ \<Rightarrow> []) @ progress_values evs"
  "terminals (ev # evs) = (case ev of Finished ok msg \<Rightarrow> [(ok, msg)] | _ \<Rightarrow> []) @ terminals evs"
  "video_submitted (ev # evs) = (case ev of EncodeVideo f \<Rightarrow> [f] | _ \<Rightarrow> []) @ video_submitted evs"
  "audio_submitted (ev # evs) = (case ev of EncodeAudio f \<Rightarrow> [f] | _ \<Rightarrow> []) @ audio_submitted evs"
  by (simp_all add: progress_values_def terminals_def video_submitted_def audio_submitted_def)

lemma attempt_statuses_Cons [simp]:
  "attempt_statuses (ev # evs) =
     (case ev of
        StatusUpdated (AttemptingEncoder a) \<Rightarrow> [AttemptingEncoder a]
      | StatusUpdated (UsingEncoder a) \<Rightarrow> [UsingEncoder a]
      | StatusUpdated (EncoderFailed a m) \<Rightarrow> [EncoderFailed a m]
      | _ \<Rightarrow> []) @ attempt_statuses evs"
  by (simp add: attempt_statuses_def)

lemma proj_avoids:
  "avoids is_progress m \<Longrightarrow> progress_values (snd m) = []"
  "avoids is_terminal m \<Longrightarrow> terminals (snd m) = []"
  "avoids is_video_encode m \<Longrightarrow> video_submitted (snd m) = []"
  "avoids is_audio_encode m \<Longrightarrow> audio_submitted (snd m) = []"
  "avoids is_attempt_status m \<Longrightarrow> attempt_statuses (snd m) = []"
proof -
  have "\<not> list_ex is_progress evs \<Longrightarrow> progress_values evs = []" for evs
    by (induction evs) (auto split: event.splits)
  then show "avoids is_progress m \<Longrightarrow> progress_values (snd m) = []" by (simp add: avoids_def)
  have "\<not> list_ex is_terminal evs \<Longrightarrow> terminals evs = []" for evs
    by (induction evs) (auto split: event.splits)
  then show "avoids is_terminal m \<Longrightarrow> terminals (snd m) = []" by (simp add: avoids_def)
  have "\<not> list_ex is_video_encode evs \<Longrightarrow> video_submitted evs = []" for evs
    by (induction evs) (auto split: event.splits)
  then show "avoids is_video_encode m \<Longrightarrow> video_submitted (snd m) = []" by (simp add: avoids_def)
  have "\<not> list_ex is_audio_encode evs \<Longrightarrow> audio_submitted evs = []" for evs
    by (induction evs) (auto split: event.splits)
  then show "avoids is_audio_encode m \<Longrightarrow> audio_submitted (snd m) = []" by (simp add: avoids_def)
  have "\<not> list_ex is_attempt_status evs \<Longrightarrow> attempt_statuses evs = []" for evs
    by (induction evs) (auto split: event.splits status.splits)
  then show "avoids is_attempt_status m \<Longrightarrow> attempt_statuses (snd m) = []" by (simp add: avoids_def)
qed

subsection \<open>Encoder tables, resolutions and settings that do not matter\<close>

lemma priority_cases:
  "family \<in> set codec_families \<Longrightarrow>
     dict_get encoder_priority family [] \<noteq> [] \<and>
     hd (dict_get encoder_priority family []) = dict_get fallback family ''libx264'' \<and>
     \<not> is_hardware_encoder (hd (dict_get encoder_priority family [])) \<and>
     list_all is_hardware_encoder (tl (dict_get encoder_priority family []))"
  by (auto simp: codec_families_def dict_get_def encoder_priority_def fallback_def
      is_hardware_encoder_def accelerator_families_def)

lemma unknown_family:
  "family \<notin> set codec_families \<Longrightarrow>
     get_optimal_encoder available family = ''libx264'' \<and> get_fallback_encoders family = [''libx264'']"
  by (simp add: codec_families_def get_optimal_encoder_def get_fallback_encoders_def dict_get_def
      encoder_priority_def fallback_def fallback_lists_def)

lemma fallback_nonempty: "get_fallback_encoders family \<noteq> []"
  by (simp add: get_fallback_encoders_def dict_get_def fallback_lists_def)

lemma none_available:
  "\<forall>e \<in> set (dict_get encoder_priority family []). e \<notin> available \<Longrightarrow>
   get_optimal_encoder available family = dict_get fallback family ''libx264''"
proof -
  assume "\<forall>e \<in> set (dict_get encoder_priority family []). e \<notin> available"
  then have "find (\<lambda>encoder. encoder \<in> available) (dict_get encoder_priority family []) = None"
    by (simp add: find_None_iff)
  then show ?thesis by (simp add: get_optimal_encoder_def)
qed

lemma optimal_from_tables:
  "get_optimal_encoder available family \<in>
     insert (dict_get fallback family ''libx264'')
       {e \<in> set (dict_get encoder_priority family []). e \<in> available}"
  by (auto simp: get_optimal_encoder_def find_Some_iff split: option.splits)

lemma resolution_table:
  "get_resolution_dimensions ''1080p'' = (1920, 1080)"
  "get_resolution_dimensions ''720p'' = (1280, 720)"
  "get_resolution_dimensions ''480p'' = (854, 480)"
  by (simp_all add: get_resolution_dimensions_def resolutions_def)

lemma resolution_default:
  "r \<notin> {''1080p'', ''720p'', ''480p''} \<Longrightarrow> get_resolution_dimensions r = (1920, 1080)"
  by (simp add: get_resolution_dimensions_def resolutions_def)

lemma setup_video_dims:
  assumes "fst (setup_video_encoder env s a vs) = Inr os"
  shows "out_width os = out_width (sized s vs (new_video_stream a))"
    "out_height os = out_height (sized s vs (new_video_stream a))"
  using assms
  by (auto simp: setup_video_encoder_def act_simps split: sum.splits if_splits option.splits)

lemma setup_video_gpu:
  "setup_video_encoder env (s\<lparr>gpu_acceleration := g\<rparr>) = setup_video_encoder env s"
  by (intro ext) (simp add: setup_video_encoder_def sized_def crf_options_def cong: if_cong)

lemma try_encoders_gpu:
  "try_encoders env (s\<lparr>gpu_acceleration := g\<rparr>) vs plan = try_encoders env s vs plan"
  by (induction plan) (simp_all add: setup_video_gpu)

lemma video_step_gpu:
  "video_step env (s\<lparr>gpu_acceleration := g\<rparr>) = video_step env s"
  by (intro ext) (simp add: video_step_def resize_frame_def cong: if_cong)

lemma video_loop_gpu:
  "video_loop env (s\<lparr>gpu_acceleration := g\<rparr>) t fs st = video_loop env s t fs st"
  by (induction env s t fs st rule: video_loop.induct) (simp_all add: video_step_gpu)

lemma transcode_gpu: "transcode env (s\<lparr>gpu_acceleration := g\<rparr>) = transcode env s"
  by (intro ext) (simp add: transcode_def video_loop_gpu)

lemma setup_audio_gpu: "setup_audio env (s\<lparr>gpu_acceleration := g\<rparr>) = setup_audio env s"
  by (simp add: setup_audio_def setup_audio_encoder_def cong: list.case_cong)

lemma open_input_gpu: "open_input env (s\<lparr>gpu_acceleration := g\<rparr>) = open_input env s"
  by (simp add: open_input_def)

lemma attempt_plan_gpu: "attempt_plan env (s\<lparr>gpu_acceleration := g\<rparr>) = attempt_plan env s"
  by (simp add: attempt_plan_def)

lemma body_gpu: "body env (s\<lparr>gpu_acceleration := g\<rparr>) = body env s"
  by (simp add: body_def open_input_gpu attempt_plan_gpu try_encoders_gpu setup_audio_gpu
      transcode_gpu cong: option.case_cong)

lemma run_gpu: "run env (s\<lparr>gpu_acceleration := g\<rparr>) = run env s"
  by (simp add: run_def body_gpu)

lemma setup_video_res:
  assumes "r \<notin> {''1080p'', ''720p'', ''480p'', ''original''}"
  shows "setup_video_encoder env (s\<lparr>resolution := r\<rparr>) = setup_video_encoder env (s\<lparr>resolution := ''1080p''\<rparr>)"
  using assms
  by (intro ext) (simp add: setup_video_encoder_def sized_def crf_options_def resolution_default resolution_table cong: if_cong)

lemma try_encoders_res:
  assumes "r \<notin> {''1080p'', ''720p'', ''480p'', ''original''}"
  shows "try_encoders env (s\<lparr>resolution := r\<rparr>) vs plan = try_encoders env (s\<lparr>resolution := ''1080p''\<rparr>) vs plan"
  by (induction plan) (simp_all add: setup_video_res[OF assms])

lemma video_step_res:
  assumes "r \<notin> {''1080p'', ''720p'', ''480p'', ''original''}"
  shows "video_step env (s\<lparr>resolution := r\<rparr>) = video_step env (s\<lparr>resolution := ''1080p''\<rparr>)"
  using assms
  by (intro ext) (simp add: video_step_def resize_frame_def resolution_default resolution_table cong: if_cong)

lemma video_loop_res:
  assumes "r \<notin> {''1080p'', ''720p'', ''480p'', ''original''}"
  shows "video_loop env (s\<lparr>resolution := r\<rparr>) t fs st = video_loop env (s\<lparr>resolution := ''1080p''\<rparr>) t fs st"
proof (induction fs arbitrary: st)
  case Nil
  show ?case by (cases st) simp
next
  case (Cons f fs)
  show ?case by (cases st; cases f) (simp_all add: video_step_res[OF assms] Cons.IH)
qed

lemma body_res:
  assumes "r \<notin> {''1080p'', ''720p'', ''480p'', ''original''}"
  shows "body env (s\<lparr>resolution := r\<rparr>) = body env (s\<lparr>resolution := ''1080p''\<rparr>)"
proof -
  have "transcode env (s\<lparr>resolution := r\<rparr>) = transcode env (s\<lparr>resolution := ''1080p''\<rparr>)"
    by (intro ext) (simp add: transcode_def video_loop_res[OF assms])
  moreover have "setup_audio env (s\<lparr>resolution := r\<rparr>) = setup_audio env (s\<lparr>resolution := ''1080p''\<rparr>)"
    by (simp add: setup_audio_def setup_audio_encoder_def cong: list.case_cong)
  moreover have "open_input env (s\<lparr>resolution := r\<rparr>) = open_input env (s\<lparr>resolution := ''1080p''\<rparr>)"
    by (simp add: open_input_def)
  moreover have "attempt_plan env (s\<lparr>resolution := r\<rparr>) = attempt_plan env (s\<lparr>resolution := ''1080p''\<rparr>)"
    by (simp add: attempt_plan_def)
  ultimately show ?thesis
    by (simp add: body_def try_encoders_res[OF assms] cong: option.case_cong)
qed

subsection \<open>The frames handed to the video encoder\<close>

lemma resize_frame_result:
  "fst (resize_frame env s fr) = Inr fr' \<Longrightarrow>
     fr' = fr\<lparr>frame_width := fst (get_resolution_dimensions (resolution s)),
              frame_height := snd (get_resolution_dimensions (resolution s))\<rparr>"
  by (auto simp: resize_frame_def act_simps split: prod.splits option.splits)

lemma video_step_submitted:
  "video_submitted (snd (video_step env s t fr n)) =
     (case fst (if resolution s \<noteq> ''original'' then resize_frame env s fr else ret fr) of
        Inl e \<Rightarrow> [] | Inr fr' \<Rightarrow> [fr'])"
proof -
  have a: "video_submitted (snd (resize_frame env s fr)) = []"
    by (rule proj_avoids) (simp add: avoids_resize_frame)
  have b: "video_submitted (snd (mux_all env VideoEncode ps)) = []" for ps
    by (rule proj_avoids) (simp add: avoids_mux_all)
  show ?thesis
    by (auto simp: video_step_def act_simps a b split: sum.splits)
qed

lemma video_step_resized:
  assumes "resolution s \<noteq> ''original''" "get_resolution_dimensions (resolution s) = (w, h)"
    and "f \<in> set (video_submitted (snd (video_step env s t fr n)))"
  shows "frame_width f = w \<and> frame_height f = h"
proof (cases "fst (resize_frame env s fr)")
  case (Inl e)
  then show ?thesis using assms by (simp add: video_step_submitted)
next
  case (Inr fr')
  then have "f = fr'" using assms by (simp add: video_step_submitted)
  then show ?thesis using resize_frame_result[OF Inr] assms(2) by simp
qed

lemma video_loop_resized:
  assumes "resolution s \<noteq> ''original''" "get_resolution_dimensions (resolution s) = (w, h)"
  shows "\<forall>f \<in> set (video_submitted (snd (video_loop env s t fs st))). frame_width f = w \<and> frame_height f = h"
proof (induction fs arbitrary: st)
  case Nil
  show ?case by (cases st) (simp add: act_simps)
next
  case (Cons x fs)
  obtain n rd where st: "st = (n, rd)" by (cases st)
  show ?case
  proof (cases x)
    case (Inl e)
    then show ?thesis by (simp add: st act_simps)
  next
    case (Inr fr)
    show ?thesis
      using video_step_resized[OF assms] Cons.IH
      by (auto simp: st Inr act_simps split: sum.splits)
  qed
qed

lemma run_submitted: "video_submitted (run env s) = video_submitted (snd (body env s))"
  by (auto simp: run_def act_simps split: sum.splits)

lemma transcode_submitted:
  "video_submitted (snd (transcode env s t aos)) =
      video_submitted (snd (video_loop env s t (video_frames env) (0, 0)))"
proof -
  have d: "video_submitted (snd (process_audio env aos rd)) = []" for aos rd
    by (rule proj_avoids) (simp add: avoids_process_audio)
  have e: "video_submitted (snd (flush_encoders env aos rd)) = []" for aos rd
    by (rule proj_avoids) (simp add: avoids_flush_encoders)
  have f: "video_submitted (snd (close_containers env)) = []"
    by (rule proj_avoids) (simp add: avoids_close)
  have g: "video_submitted (snd (report env rd)) = []" for rd
    by (simp add: report_def act_simps)
  show ?thesis
    by (auto simp: transcode_def act_simps d e f g split: sum.splits prod.splits)
qed

lemma body_submitted:
  "video_submitted (snd (body env s)) = [] \<or>
   (\<exists>t. video_submitted (snd (body env s)) =
     video_submitted (snd (video_loop env s t (video_frames env) (0, 0))))"
proof -
  have a: "video_submitted (snd (open_input env s)) = []"
    by (rule proj_avoids) (simp add: avoids_open_input)
  have b: "video_submitted (snd (try_encoders env s vs plan)) = []" for vs plan
    by (rule proj_avoids) (simp add: avoids_try_encoders)
  have c: "video_submitted (snd (setup_audio env s)) = []"
    by (rule proj_avoids) (simp add: avoids_setup_audio)
  show ?thesis
    by (auto simp: body_def act_simps a b c transcode_submitted split: sum.splits option.splits)
qed

lemma run_resized:
  assumes "resolution s \<noteq> ''original''" "get_resolution_dimensions (resolution s) = (w, h)"
  shows "\<forall>f \<in> set (video_submitted (run env s)). frame_width f = w \<and> frame_height f = h"
  using body_submitted[of env s] video_loop_resized[OF assms]
  by (auto simp: run_submitted)

subsection \<open>Evaluating a run on a given input\<close>

lemmas eval_defs =
  run_def body_def open_input_def estimate_total_frames_def attempt_plan_def
  get_optimal_encoder_def get_fallback_encoders_def dict_get_def encoder_priority_def
  fallback_def fallback_lists_def setup_video_encoder_def sized_def new_video_stream_def
  input_rate_def given_def crf_options_def setup_audio_def setup_audio_encoder_def
  transcode_def video_step_def resize_frame_def get_resolution_dimensions_def resolutions_def
  is_cancelled_def process_audio_def flush_encoders_def close_containers_def report_def
  error_msg_def catch_def bnd_def seq_def ret_def raise_def emit_def lift_def call_def
  parse_bitrate_def upper_def upper_char_def ascii_lowercase_def ascii_uppercase_def
  endswith_def py_float_def py_int_def is_digit_def digits_val_def digit_val_def
  int_of_scaled_def

subsection \<open>The attempt loop\<close>

lemma setup_video_no_status: "attempt_statuses (snd (setup_video_encoder env s a vs)) = []"
  by (rule proj_avoids) (simp add: avoids_setup_video)

lemma try_encoders_Cons_fail:
  assumes "fst (setup_video_encoder env s a vs) = Inl e"
  shows "fst (try_encoders env s vs (a # plan)) = fst (try_encoders env s vs plan)"
    and "attempt_statuses (snd (try_encoders env s vs (a # plan))) =
           [AttemptingEncoder a, EncoderFailed a (str e)] @
           attempt_statuses (snd (try_encoders env s vs plan))"
  using assms by (simp_all add: act_simps setup_video_no_status)

lemma try_encoders_all_fail:
  assumes "\<forall>a \<in> set plan. attempt_failure env s vs a \<noteq> None"
  shows "fst (try_encoders env s vs plan) = Inr None \<and>
         attempt_statuses (snd (try_encoders env s vs plan)) =
           concat (map (attempt_report env s vs) plan)"
  using assms
proof (induction plan)
  case Nil
  show ?case by (simp add: act_simps)
next
  case (Cons a plan)
  from Cons.prems obtain e where e: "fst (setup_video_encoder env s a vs) = Inl e"
    by (auto simp: attempt_failure_def split: sum.splits)
  then have r: "attempt_report env s vs a = [AttemptingEncoder a, EncoderFailed a (str e)]"
    by (simp add: attempt_report_def attempt_failure_def)
  show ?case
    using Cons try_encoders_Cons_fail[OF e, of plan] r by simp
qed

lemma setup_video_refused:
  assumes "add_stream_error env a = Some e"
  shows "snd (setup_video_encoder env s a vs) = []" "attempt_failure env s vs a \<noteq> None"
  using assms by (simp_all add: setup_video_encoder_def attempt_failure_def act_simps)

lemma try_encoders_refused:
  assumes "\<forall>a \<in> set plan. add_stream_error env a \<noteq> None"
  shows "avoids stream_added (try_encoders env s vs plan)"
  using assms
proof (induction plan)
  case Nil
  show ?case by (simp add: avoids_prims)
next
  case (Cons a plan)
  then obtain e where "add_stream_error env a = Some e" by auto
  then have "avoids stream_added (setup_video_encoder env s a vs)"
    by (simp add: avoids_def setup_video_refused)
  then show ?case using Cons by (auto intro!: avoids_intros)
qed

lemma open_input_ok:
  assumes "path_exists env (input_file s)" "open_input_error env = None"
    "video_streams env = vs # others"
  shows "open_input env s = (Inr vs, [StatusUpdated Initializing, OpenInput (input_file s)])"
  using assms by (simp add: open_input_def seq_def bnd_def emit_def call_def ret_def)

lemma body_exhausted:
  assumes "path_exists env (input_file s)" "open_input_error env = None"
    "video_streams env = vs # others" "open_output_error env = None"
    and "\<forall>a \<in> set (attempt_plan env s). attempt_failure env s vs a \<noteq> None"
  shows "fst (body env s) = Inl (RuntimeError ''No working video encoder found'')"
    and "snd (body env s) =
      [StatusUpdated Initializing, OpenInput (input_file s),
       StatusUpdated (ProcessingFrames (estimate_total_frames env vs)),
       StatusUpdated (TryingEncoder (get_optimal_encoder (codecs_available env) (codec s))),
       OpenOutput (output_file s)] @ snd (try_encoders env s vs (attempt_plan env s))"
  using try_encoders_all_fail[OF assms(5)] assms(4)
  by (simp_all add: body_def open_input_ok[OF assms(1-3)] act_simps)

subsection \<open>The handler of \<^verbatim>\<open>run\<close>\<close>

lemma run_unfold:
  "run env s =
     (case fst (body env s) of
        Inl e \<Rightarrow> snd (body env s) @
                 [StatusUpdated (ErrorText (error_msg e)), Finished False (error_msg e)]
      | Inr x \<Rightarrow> snd (body env s))"
  by (simp add: run_def act_simps split: sum.splits)

subsection \<open>The terminal event\<close>

lemma report_result:
  "fst (report env rd) = Inr (is_cancelled env rd)"
  "snd (report env rd) =
     (if is_cancelled env rd then [Finished False ''Compression cancelled by user'']
      else [StatusUpdated Completed, ProgressUpdated 100,
            Finished True ''Compression completed successfully!''])"
  by (simp_all add: report_def act_simps)

lemma transcode_shape:
  assumes "fst (transcode env s t aos) = Inr (c, rd)"
  shows "\<exists>pre. snd (transcode env s t aos) = pre @ snd (report env (rd - 1)) \<and>
           terminals pre = [] \<and> \<not> list_ex failure_status pre \<and>
           c = is_cancelled env (rd - 1) \<and> 0 < rd"
proof -
  have v: "terminals (snd (video_loop env s t fs st)) = []"
    "\<not> list_ex failure_status (snd (video_loop env s t fs st))" for fs st
    using avoids_video_loop[of is_terminal env s t fs st]
      avoids_video_loop[of failure_status env s t fs st]
    by (simp_all add: proj_avoids) (simp add: avoids_def)
  have a: "terminals (snd (process_audio env aos rd)) = []"
    "\<not> list_ex failure_status (snd (process_audio env aos rd))" for rd
    using avoids_process_audio[of is_terminal env aos rd]
      avoids_process_audio[of failure_status env aos rd]
    by (simp_all add: proj_avoids) (simp add: avoids_def)
  have f: "terminals (snd (flush_encoders env aos rd)) = []"
    "\<not> list_ex failure_status (snd (flush_encoders env aos rd))" for rd
    using avoids_flush_encoders[of is_terminal env aos rd]
      avoids_flush_encoders[of failure_status env aos rd]
    by (simp_all add: proj_avoids) (simp add: avoids_def)
  have c: "terminals (snd (close_containers env)) = []"
    "\<not> list_ex failure_status (snd (close_containers env))"
    using avoids_close[of is_terminal env] avoids_close[of failure_status env]
    by (simp_all add: proj_avoids) (simp add: avoids_def)
  show ?thesis
    using assms
    by (auto simp: transcode_def act_simps v a f c report_result(1)
        split: sum.splits prod.splits)
qed

lemma transcode_failed:
  assumes "fst (transcode env s t aos) = Inl e"
  shows "terminals (snd (transcode env s t aos)) = [] \<and>
         \<not> list_ex failure_status (snd (transcode env s t aos))"
proof -
  have v: "terminals (snd (video_loop env s t fs st)) = []"
    "\<not> list_ex failure_status (snd (video_loop env s t fs st))" for fs st
    using avoids_video_loop[of is_terminal env s t fs st]
      avoids_video_loop[of failure_status env s t fs st]
    by (simp_all add: proj_avoids) (simp add: avoids_def)
  have a: "terminals (snd (process_audio env aos rd)) = []"
    "\<not> list_ex failure_status (snd (process_audio env aos rd))" for rd
    using avoids_process_audio[of is_terminal env aos rd]
      avoids_process_audio[of failure_status env aos rd]
    by (simp_all add: proj_avoids) (simp add: avoids_def)
  have f: "terminals (snd (flush_encoders env aos rd)) = []"
    "\<not> list_ex failure_status (snd (flush_encoders env aos rd))" for rd
    using avoids_flush_encoders[of is_terminal env aos rd]
      avoids_flush_encoders[of failure_status env aos rd]
    by (simp_all add: proj_avoids) (simp add: avoids_def)
  have c: "terminals (snd (close_containers env)) = []"
    "\<not> list_ex failure_status (snd (close_containers env))"
    using avoids_close[of is_terminal env] avoids_close[of failure_status env]
    by (simp_all add: proj_avoids) (simp add: avoids_def)
  show ?thesis
    using assms
    by (auto simp: transcode_def act_simps v a f c report_result(1)
        split: sum.splits prod.splits)
qed

subsection \<open>The run up to the first frame\<close>

lemma setup_events_quiet:
  assumes "list_all setup_event evs"
  shows "terminals evs = []" "progress_values evs = []" "video_submitted evs = []"
    "audio_submitted evs = []" "\<not> list_ex failure_status evs" "\<not> list_ex flush_event evs"
  using assms
  by (induction evs; auto elim: setup_event.elims)+

lemma avoids_setup_event:
  "avoids (\<lambda>ev. \<not> setup_event ev) m \<Longrightarrow> list_all setup_event (snd m)"
  by (simp add: avoids_def list_all_iff list_ex_iff)

lemma body_cases:
  "(\<exists>e. fst (body env s) = Inl e \<and> list_all setup_event (snd (body env s)))
   \<or> (\<exists>pre aos.
         list_all setup_event pre \<and>
         (aos = None \<longleftrightarrow> audio_streams env = []) \<and>
         fst (body env s) =
           fst (transcode env s (estimate_total_frames env (hd (video_streams env))) aos) \<and>
         snd (body env s) =
           pre @ snd (transcode env s (estimate_total_frames env (hd (video_streams env))) aos))"
proof -
  have o: "list_all setup_event (snd (open_input env s))"
    by (rule avoids_setup_event) (simp add: avoids_open_input)
  have t: "list_all setup_event (snd (try_encoders env s vs plan))" for vs plan
    by (rule avoids_setup_event) (simp add: avoids_try_encoders)
  have a: "list_all setup_event (snd (setup_audio env s))"
    by (rule avoids_setup_event) (simp add: avoids_setup_audio)
  have h: "fst (open_input env s) = Inr vs \<Longrightarrow> vs = hd (video_streams env)" for vs
    by (auto simp: open_input_def act_simps split: if_splits option.splits list.splits)
  have n: "fst (setup_audio env s) = Inr aos \<Longrightarrow> (aos = None \<longleftrightarrow> audio_streams env = [])" for aos
    by (auto simp: setup_audio_def act_simps split: list.splits sum.splits)
  show ?thesis
  proof (cases "fst (open_input env s)")
    case (Inl e)
    then show ?thesis using o by (simp add: body_def act_simps)
  next
    case (Inr vs)
    note vs = Inr h[OF Inr]
    show ?thesis
    proof (cases "open_output_error env")
      case (Some e)
      then show ?thesis using o vs by (simp add: body_def act_simps)
    next
      case None
      note oo = None
      let ?attempts = "try_encoders env s vs (attempt_plan env s)"
      show ?thesis
      proof (cases "fst ?attempts")
        case (Inl e)
        then show ?thesis using o vs oo t[of vs "attempt_plan env s"]
          by (simp add: body_def act_simps)
      next
        case (Inr vos)
        note tr = Inr
        show ?thesis
        proof (cases vos)
          case None
          then show ?thesis using o vs oo tr t[of vs "attempt_plan env s"]
            by (simp add: body_def act_simps)
        next
          case (Some x)
          show ?thesis
          proof (cases "fst (setup_audio env s)")
            case (Inl e)
            then show ?thesis using o vs oo tr Some t[of vs "attempt_plan env s"] a
              by (simp add: body_def act_simps)
          next
            case (Inr aos)
            let ?pre = "snd (open_input env s) @
              [StatusUpdated (ProcessingFrames (estimate_total_frames env vs)),
               StatusUpdated (TryingEncoder (get_optimal_encoder (codecs_available env) (codec s))),
               OpenOutput (output_file s)] @ snd ?attempts @ snd (setup_audio env s)"
            have "list_all setup_event ?pre"
              using o t[of vs "attempt_plan env s"] a by simp
            moreover have "fst (body env s) =
                fst (transcode env s (estimate_total_frames env (hd (video_streams env))) aos)"
              "snd (body env s) =
                ?pre @ snd (transcode env s (estimate_total_frames env (hd (video_streams env))) aos)"
              using vs oo tr Some Inr by (simp_all add: body_def act_simps)
            ultimately show ?thesis using n[OF Inr] by blast
          qed
        qed
      qed
    qed
  qed
qed

subsection \<open>Progress\<close>

lemma video_step_progress:
  "fst (video_step env s t fr n) = Inr n' \<Longrightarrow>
     n' = Suc n \<and> progress_values (snd (video_step env s t fr n)) = [min 100 (percent env (Suc n) t)]"
  "fst (video_step env s t fr n) = Inl e \<Longrightarrow> progress_values (snd (video_step env s t fr n)) = []"
proof -
  let ?sized = "if resolution s \<noteq> ''original'' then resize_frame env s fr else ret fr"
  have a: "progress_values (snd ?sized) = []"
    using proj_avoids(1)[of "resize_frame env s fr"]
    by (simp add: avoids_resize_frame act_simps)
  have b: "progress_values (snd (mux_all env VideoEncode ps)) = []" for ps
    by (rule proj_avoids) (simp add: avoids_mux_all)
  have both: "(fst (video_step env s t fr n) = Inr n' \<longrightarrow>
       n' = Suc n \<and> progress_values (snd (video_step env s t fr n)) = [min 100 (percent env (Suc n) t)]) \<and>
     (fst (video_step env s t fr n) = Inl e \<longrightarrow> progress_values (snd (video_step env s t fr n)) = [])"
  proof (cases "fst ?sized")
    case (Inl x)
    then show ?thesis using a by (simp add: video_step_def act_simps)
  next
    case sized: (Inr fr')
    show ?thesis
    proof (cases "encode_video env n fr'")
      case (Inl x)
      then show ?thesis using a sized by (simp add: video_step_def act_simps)
    next
      case enc: (Inr ps)
      show ?thesis
      proof (cases "fst (mux_all env VideoEncode ps)")
        case (Inl x)
        then show ?thesis using a sized enc b[of ps] by (simp add: video_step_def act_simps)
      next
        case (Inr u)
        then show ?thesis
          using a sized enc b[of ps]
          by (cases "t = 0"; cases "Suc n mod 30 = 0") (simp_all add: video_step_def act_simps)
      qed
    qed
  qed
  show "fst (video_step env s t fr n) = Inr n' \<Longrightarrow>
     n' = Suc n \<and> progress_values (snd (video_step env s t fr n)) = [min 100 (percent env (Suc n) t)]"
    using both by simp
  show "fst (video_step env s t fr n) = Inl e \<Longrightarrow> progress_values (snd (video_step env s t fr n)) = []"
    using both by simp
qed

lemma video_loop_progress:
  "\<exists>k. progress_values (snd (video_loop env s t fs (n, rd))) =
         map (\<lambda>p. min 100 (percent env p t)) [Suc n ..< Suc n + k] \<and>
       (\<forall>n' rd'. fst (video_loop env s t fs (n, rd)) = Inr (n', rd') \<longrightarrow> n' = n + k)"
proof (induction fs arbitrary: n rd)
  case Nil
  show ?case by (rule exI[of _ 0]) (simp add: act_simps)
next
  case (Cons x fs)
  show ?case
  proof (cases x)
    case (Inl e)
    then show ?thesis by (intro exI[of _ 0]) (simp add: act_simps)
  next
    case (Inr fr)
    show ?thesis
    proof (cases "is_cancelled env rd")
      case True
      then show ?thesis using Inr by (intro exI[of _ 0]) (simp add: act_simps)
    next
      case False
      show ?thesis
      proof (cases "fst (video_step env s t fr n)")
        case (Inl e)
        then show ?thesis
          using Inr False video_step_progress(2)[OF Inl]
          by (intro exI[of _ 0]) (simp add: act_simps)
      next
        case step: (Inr n')
        from video_step_progress(1)[OF step]
        have n': "n' = Suc n"
          and p: "progress_values (snd (video_step env s t fr n)) = [min 100 (percent env (Suc n) t)]"
          by simp_all
        from Cons.IH[of "Suc n" "Suc rd"] obtain k where
          k: "progress_values (snd (video_loop env s t fs (Suc n, Suc rd))) =
                map (\<lambda>p. min 100 (percent env p t)) [Suc (Suc n) ..< Suc (Suc n) + k]"
             "\<forall>n' rd'. fst (video_loop env s t fs (Suc n, Suc rd)) = Inr (n', rd') \<longrightarrow> n' = Suc n + k"
          by blast
        show ?thesis
          using Inr False step n' p k
          by (intro exI[of _ "Suc k"]) (simp add: act_simps upt_conv_Cons[of "Suc n"] del: upt_Suc)
      qed
    qed
  qed
qed

lemma transcode_progress:
  "\<exists>k. progress_values (snd (transcode env s t aos)) =
         map (\<lambda>p. min 100 (percent env p t)) [1 ..< Suc k] @
         (case fst (transcode env s t aos) of
            Inl e \<Rightarrow> [] | Inr (c, rd) \<Rightarrow> if c then [] else [100])"
proof -
  have a: "progress_values (snd (process_audio env aos rd)) = []" for rd
    by (rule proj_avoids) (simp add: avoids_process_audio)
  have f: "progress_values (snd (flush_encoders env aos rd)) = []" for rd
    by (rule proj_avoids) (simp add: avoids_flush_encoders)
  have c: "progress_values (snd (close_containers env)) = []"
    by (rule proj_avoids) (simp add: avoids_close)
  from video_loop_progress[of env s t "video_frames env" 0 0] obtain k where
    k: "progress_values (snd (video_loop env s t (video_frames env) (0, 0))) =
          map (\<lambda>p. min 100 (percent env p t)) [1 ..< Suc k]"
    by auto
  let ?g = "\<lambda>p. min 100 (percent env p t)"
  have "progress_values (snd (transcode env s t aos)) =
         map ?g [1 ..< Suc k] @
         (case fst (transcode env s t aos) of
            Inl e \<Rightarrow> [] | Inr (c, rd) \<Rightarrow> if c then [] else [100])"
  proof (cases "fst (video_loop env s t (video_frames env) (0, 0))")
    case (Inl e)
    then show ?thesis using k by (simp add: transcode_def act_simps)
  next
    case (Inr st)
    obtain n rd where st: "st = (n, rd)" by (cases st)
    show ?thesis
    proof (cases "fst (process_audio env aos rd)")
      case (Inl e)
      then show ?thesis using k Inr st a by (simp add: transcode_def act_simps)
    next
      case pa: (Inr rd2)
      show ?thesis
      proof (cases "fst (flush_encoders env aos rd2)")
        case (Inl e)
        then show ?thesis using k Inr st a pa f by (simp add: transcode_def act_simps)
      next
        case fl: (Inr u)
        show ?thesis
          using k Inr st a pa f fl c
          by (cases "fst (close_containers env)")
            (simp_all add: transcode_def act_simps report_result)
      qed
    qed
  qed
  then show ?thesis by blast
qed

lemma sorted_percent:
  assumes "\<forall>p q t. p \<le> q \<longrightarrow> percent env p t \<le> percent env q t"
  shows "sorted (map (\<lambda>p. min 100 (percent env p t)) [a ..< b])"
proof -
  have step: "min 100 (percent env x t) \<le> min 100 (percent env y t)" if "x < y" for x y
  proof (rule min.mono)
    show "(100::nat) \<le> 100" by simp
    show "percent env x t \<le> percent env y t" using assms that by (simp add: less_imp_le)
  qed
  have "sorted_wrt (<) [a ..< b]" by (rule sorted_wrt_upt)
  then have "sorted_wrt (\<lambda>x y. min 100 (percent env x t) \<le> min 100 (percent env y t)) [a ..< b]"
    by (rule sorted_wrt_mono_rel[rotated]) (rule step)
  then show ?thesis by (simp only: sorted_map)
qed

lemma run_progress_shape:
  "\<exists>k. progress_values (run env s) =
         map (\<lambda>p. min 100 (percent env p (estimate_total_frames env (hd (video_streams env)))))
           [1 ..< Suc k] @
         (if outcome env s = Succeeded then [100] else [])"
  using body_cases[of env s]
proof (elim disjE exE conjE)
  fix e
  assume "fst (body env s) = Inl e" "list_all setup_event (snd (body env s))"
  then show ?thesis
    using setup_events_quiet(2)[of "snd (body env s)"]
    by (intro exI[of _ 0]) (simp add: run_unfold outcome_def)
next
  fix pre aos
  let ?t = "estimate_total_frames env (hd (video_streams env))"
  assume pre: "list_all setup_event pre"
    and f: "fst (body env s) = fst (transcode env s ?t aos)"
    and b: "snd (body env s) = pre @ snd (transcode env s ?t aos)"
  from transcode_progress[of env s ?t aos] obtain k where
    k: "progress_values (snd (transcode env s ?t aos)) =
         map (\<lambda>p. min 100 (percent env p ?t)) [1 ..< Suc k] @
         (case fst (transcode env s ?t aos) of
            Inl e \<Rightarrow> [] | Inr (c, rd) \<Rightarrow> if c then [] else [100])"
    by blast
  show ?thesis
    using k f b setup_events_quiet(2)[OF pre]
    by (intro exI[of _ k]) (auto simp: run_unfold outcome_def split: sum.splits)
qed

section \<open>The claims on encoder resolution, bitrates and resolutions\<close>

text \<open>
  C6. Encoder resolution is total and yields at least one candidate for every codec family
  string: the attempt plan and the fallback list are never empty; the primary candidate is the
  hardcoded software identifier of the family or a listed encoder that is available; for each of
  the four known families the priority list starts with the software identifier, which carries no
  accelerator name, and every later entry is a hardware variant; when no listed encoder is
  available the hardcoded software identifier is returned; a family outside the four gets
  \<^verbatim>\<open>libx264\<close> both as primary candidate and as fallback list.
\<close>

theorem encoder_resolution_total:
  "attempt_plan env s \<noteq> []
   \<and> get_fallback_encoders family \<noteq> []
   \<and> get_optimal_encoder available family \<in>
        insert (dict_get fallback family ''libx264'')
          {e \<in> set (dict_get encoder_priority family []). e \<in> available}
   \<and> (family \<in> set codec_families \<longrightarrow>
        dict_get encoder_priority family [] \<noteq> [] \<and>
        hd (dict_get encoder_priority family []) = dict_get fallback family ''libx264'' \<and>
        \<not> is_hardware_encoder (hd (dict_get encoder_priority family [])) \<and>
        list_all is_hardware_encoder (tl (dict_get encoder_priority family [])))
   \<and> ((\<forall>e \<in> set (dict_get encoder_priority family []). e \<notin> available) \<longrightarrow>
        get_optimal_encoder available family = dict_get fallback family ''libx264'')
   \<and> (family \<notin> set codec_families \<longrightarrow>
        get_optimal_encoder available family = ''libx264'' \<and>
        get_fallback_encoders family = [''libx264''])"
  using priority_cases[of family] unknown_family[of family available]
    none_available[of family available] optimal_from_tables[of available family]
    fallback_nonempty[of family]
  by (intro conjI impI) (auto simp: attempt_plan_def)

theorem encoder_resolution_total_witness:
  "''h264'' \<in> set codec_families
   \<and> get_optimal_encoder {} ''h264'' = ''libx264''
   \<and> hd (dict_get encoder_priority ''h264'' []) = ''libx264''
   \<and> ''mpeg2'' \<notin> set codec_families
   \<and> get_optimal_encoder {} ''mpeg2'' = ''libx264''
   \<and> get_fallback_encoders ''mpeg2'' = [''libx264'']"
  using encoder_resolution_total[where family = "''h264''" and available = "{}"]
    encoder_resolution_total[where family = "''mpeg2''" and available = "{}"]
  by (simp add: codec_families_def dict_get_def fallback_def)

text \<open>
  C7. Two settings records that differ only in \<^verbatim>\<open>gpu_acceleration\<close> give the same attempt
  plan, and the whole run emits the same events: the field is read nowhere.
\<close>

theorem acceleration_preference_unused:
  "attempt_plan env (s\<lparr>gpu_acceleration := g\<rparr>) = attempt_plan env s
   \<and> run env (s\<lparr>gpu_acceleration := g\<rparr>) = run env s"
  by (simp add: attempt_plan_gpu run_gpu)



text \<open>
  C9. The lookup gives 1080p = (1920, 1080), 720p = (1280, 720) and 480p = (854, 480). An
  output stream that \<^verbatim>\<open>setup_video_encoder\<close> returns has the dimensions (1280, 720) when the
  resolution setting is \<^verbatim>\<open>720p\<close>, and the width and height of the input stream when the setting
  is \<^verbatim>\<open>original\<close>, whatever the input.
\<close>

theorem resolution_mapping:
  "get_resolution_dimensions ''1080p'' = (1920, 1080)
   \<and> get_resolution_dimensions ''720p'' = (1280, 720)
   \<and> get_resolution_dimensions ''480p'' = (854, 480)
   \<and> (fst (setup_video_encoder env s a vs) = Inr os \<longrightarrow>
        (resolution s = ''720p'' \<longrightarrow> out_width os = 1280 \<and> out_height os = 720) \<and>
        (resolution s = ''original'' \<longrightarrow> out_width os = width vs \<and> out_height os = height vs))"
  using setup_video_dims[of env s a vs os]
  by (auto simp: resolution_table sized_def)

theorem resolution_mapping_witness:
  "fst (setup_video_encoder clip defaults ''libx264'' (hd (video_streams clip))) =
     Inr \<lparr>out_codec = ''libx264'', out_width = 3840, out_height = 2160,
          out_rate = Some (Fraction 30 1), out_pix_fmt = Some ''yuv420p'',
          out_options = [(''crf'', Str_of 23), (''preset'', Text ''medium'')],
          out_bit_rate = None, out_thread_count = None\<rparr>
   \<and> resolution defaults = ''original''
   \<and> width (hd (video_streams clip)) = 3840 \<and> height (hd (video_streams clip)) = 2160
   \<and> fst (setup_video_encoder clip (defaults\<lparr>resolution := ''720p''\<rparr>) ''libx264''
          (hd (video_streams clip))) =
     Inr \<lparr>out_codec = ''libx264'', out_width = 1280, out_height = 720,
          out_rate = Some (Fraction 30 1), out_pix_fmt = Some ''yuv420p'',
          out_options = [(''crf'', Str_of 23), (''preset'', Text ''medium'')],
          out_bit_rate = None, out_thread_count = None\<rparr>"
proof -
  have a: "fst (setup_video_encoder clip defaults ''libx264'' (hd (video_streams clip))) =
     Inr \<lparr>out_codec = ''libx264'', out_width = 3840, out_height = 2160,
          out_rate = Some (Fraction 30 1), out_pix_fmt = Some ''yuv420p'',
          out_options = [(''crf'', Str_of 23), (''preset'', Text ''medium'')],
          out_bit_rate = None, out_thread_count = None\<rparr>"
    by (simp add: setup_video_encoder_def clip_def defaults_def act_simps sized_def
        new_video_stream_def input_rate_def given_def crf_options_def)
  have b: "fst (setup_video_encoder clip (defaults\<lparr>resolution := ''720p''\<rparr>) ''libx264''
          (hd (video_streams clip))) =
     Inr \<lparr>out_codec = ''libx264'', out_width = 1280, out_height = 720,
          out_rate = Some (Fraction 30 1), out_pix_fmt = Some ''yuv420p'',
          out_options = [(''crf'', Str_of 23), (''preset'', Text ''medium'')],
          out_bit_rate = None, out_thread_count = None\<rparr>"
    by (simp add: setup_video_encoder_def clip_def defaults_def act_simps sized_def
        new_video_stream_def input_rate_def given_def crf_options_def resolution_table)
  show ?thesis
    using a b
      resolution_mapping[where env = clip and s = defaults and a = "''libx264''"
        and vs = "hd (video_streams clip)"
        and os = "\<lparr>out_codec = ''libx264'', out_width = 3840, out_height = 2160,
          out_rate = Some (Fraction 30 1), out_pix_fmt = Some ''yuv420p'',
          out_options = [(''crf'', Str_of 23), (''preset'', Text ''medium'')],
          out_bit_rate = None, out_thread_count = None\<rparr>"]
    by (simp add: clip_def defaults_def)
qed

text \<open>
  C10. For every resolution string other than \<^verbatim>\<open>1080p\<close>, \<^verbatim>\<open>720p\<close> and \<^verbatim>\<open>480p\<close> the lookup
  returns (1920, 1080) and raises nothing. A run whose resolution setting is such a string, and
  not \<^verbatim>\<open>original\<close>, emits what the run with the setting \<^verbatim>\<open>1080p\<close> emits: every frame handed
  to the encoder is 1920 by 1080, and so is an output stream that \<^verbatim>\<open>setup_video_encoder\<close> returns.
\<close>

theorem unknown_resolution_default:
  "(r \<notin> {''1080p'', ''720p'', ''480p''} \<longrightarrow> get_resolution_dimensions r = (1920, 1080))
   \<and> (r \<notin> {''1080p'', ''720p'', ''480p'', ''original''} \<longrightarrow>
        run env (s\<lparr>resolution := r\<rparr>) = run env (s\<lparr>resolution := ''1080p''\<rparr>) \<and>
        (\<forall>f \<in> set (video_submitted (run env (s\<lparr>resolution := r\<rparr>))).
           frame_width f = 1920 \<and> frame_height f = 1080) \<and>
        (fst (setup_video_encoder env (s\<lparr>resolution := r\<rparr>) a vs) = Inr os \<longrightarrow>
           out_width os = 1920 \<and> out_height os = 1080))"
proof -
  have "run env (s\<lparr>resolution := r\<rparr>) = run env (s\<lparr>resolution := ''1080p''\<rparr>)"
    if "r \<notin> {''1080p'', ''720p'', ''480p'', ''original''}"
    using body_res[OF that] by (simp add: run_def)
  moreover have "\<forall>f \<in> set (video_submitted (run env (s\<lparr>resolution := r\<rparr>))).
           frame_width f = 1920 \<and> frame_height f = 1080"
    if "r \<notin> {''1080p'', ''720p'', ''480p'', ''original''}"
    using that run_resized[of "s\<lparr>resolution := r\<rparr>" 1920 1080 env] resolution_default[of r]
    by simp
  moreover have "out_width os = 1920 \<and> out_height os = 1080"
    if "r \<notin> {''1080p'', ''720p'', ''480p'', ''original''}"
      "fst (setup_video_encoder env (s\<lparr>resolution := r\<rparr>) a vs) = Inr os"
    using that setup_video_dims[OF that(2)] resolution_default[of r]
    by (simp add: sized_def)
  ultimately show ?thesis using resolution_default[of r] by blast
qed

theorem unknown_resolution_default_witness:
  "''4k'' \<notin> {''1080p'', ''720p'', ''480p'', ''original''}
   \<and> get_resolution_dimensions ''4k'' = (1920, 1080)
   \<and> run clip (defaults\<lparr>resolution := ''4k''\<rparr>) = run clip (defaults\<lparr>resolution := ''1080p''\<rparr>)
   \<and> map frame_index (video_submitted (run clip (defaults\<lparr>resolution := ''4k''\<rparr>))) =
       [0, 1, 2, 3]
   \<and> list_all (\<lambda>f. frame_width f = 1920 \<and> frame_height f = 1080)
        (video_submitted (run clip (defaults\<lparr>resolution := ''4k''\<rparr>)))"
proof -
  have "map frame_index (video_submitted (run clip (defaults\<lparr>resolution := ''4k''\<rparr>))) =
       [0, 1, 2, 3]"
    by (simp add: eval_defs clip_def defaults_def frame4k_def)
  then show ?thesis
    using unknown_resolution_default[of "''4k''" clip defaults]
    by (simp add: list_all_iff)
qed


section \<open>The claims on the run\<close>



text \<open>
  C1. The containers are closed by the two statements that precede the last \<^verbatim>\<open>if\<close> of the
  \<^verbatim>\<open>try\<close> block, as the third equation shows for the sample input. An exception skips them,
  and neither the handler nor the \<^verbatim>\<open>finally\<close> block closes anything: on an input without a
  video stream the input container is opened and the failure is reported with the container still
  open, and when the encoder rejects the first frame both containers are open at the terminal
  event.
\<close>

theorem failed_run_leaves_containers_open:
  "run (clip\<lparr>video_streams := []\<rparr>) defaults =
     [StatusUpdated Initializing, OpenInput ''in.mp4'',
      StatusUpdated (ErrorText ''Compression failed: tuple index out of range''),
      Finished False ''Compression failed: tuple index out of range'']
   \<and> run (clip\<lparr>encode_video := (\<lambda>n f. Inl (AVError ''Invalid argument''))\<rparr>) defaults =
     [StatusUpdated Initializing, OpenInput ''in.mp4'', StatusUpdated (ProcessingFrames 4),
      StatusUpdated (TryingEncoder ''libx264''), OpenOutput ''out.mp4'',
      StatusUpdated (AttemptingEncoder ''libx264''), AddStream ''libx264'',
      StatusUpdated (UsingEncoder ''libx264''), AddStream ''aac'',
      EncodeVideo (frame4k 0),
      StatusUpdated (ErrorText ''Compression failed: Invalid argument''),
      Finished False ''Compression failed: Invalid argument'']
   \<and> filter (\<lambda>ev. ev = CloseInput \<or> ev = CloseOutput \<or> is_terminal ev) (run clip defaults) =
     [CloseInput, CloseOutput, Finished True ''Compression completed successfully!'']"
  by (simp add: eval_defs clip_def defaults_def)






end
